theory Spec2Isabelle
  imports Main "HOL-Library.Word"
begin

section \<open>Python values used by the DBF tools\<close>

text \<open>
  A Python \<open>bytes\<close> object is a list of 8-bit words; a Python \<open>str\<close> is a list of
  Unicode code points. The values that reach the field formatter are \<open>None\<close>, booleans,
  unbounded integers, floats and strings. A finite float \<open>Fin s m e\<close> stands for
  \<open>(-1)^s * m * 2^e\<close>, which covers every finite IEEE double exactly.
\<close>

type_synonym byte = "8 word"
type_synonym bytes = "byte list"
type_synonym pystr = "nat list"

datatype pyfloat = Fin bool nat int | Inf bool | NaN

datatype pyval = PNone | PBool bool | PInt int | PFloat pyfloat | PStr pystr

datatype error =
    IndexError | StructError | UnicodeDecodeError | ValueError | OverflowError
  | TypeError | KeyError | AttributeError | FileNotFoundError

text \<open>
  Three library routines of the Python runtime are not part of the repository and are
  taken as parameters: the lower-casing of strings that contain non-ASCII characters,
  the parsing of a string as a float (\<open>None\<close> stands for \<open>ValueError\<close>), and
  \<open>str\<close> of a float. A fourth parameter is the interpreter's limit on the number of
  decimal digits of an integer converted to a string (\<open>sys.get_int_max_str_digits()\<close>):
  4300 by default since Python 3.11, and 0 where there is no limit; an interpreter accepts
  only 0 or a limit of at least 640.
\<close>

record runtime =
  unicode_lower :: "pystr \<Rightarrow> pystr"
  float_of_str :: "pystr \<Rightarrow> pyfloat option"
  float_repr :: "pyfloat \<Rightarrow> pystr"
  int_max_str_digits :: nat

definition ascii :: "string \<Rightarrow> pystr" where
  "ascii s = map of_char s"

definition encode_ascii :: "string \<Rightarrow> bytes" where
  "encode_ascii s = map of_char s"

section \<open>String helpers: \<open>decode('ascii', errors='ignore')\<close>, \<open>strip\<close>, \<open>lower\<close>\<close>

definition decode_ascii_ignore :: "bytes \<Rightarrow> pystr" where
  "decode_ascii_ignore bs = map unat (filter (\<lambda>b. b < 0x80) bs)"

definition is_space :: "nat \<Rightarrow> bool" where
  "is_space c \<longleftrightarrow>
     (9 \<le> c \<and> c \<le> 13) \<or> (28 \<le> c \<and> c \<le> 32) \<or> c = 0x85 \<or> c = 0xA0 \<or> c = 0x1680
     \<or> (0x2000 \<le> c \<and> c \<le> 0x200A) \<or> c = 0x2028 \<or> c = 0x2029 \<or> c = 0x202F
     \<or> c = 0x205F \<or> c = 0x3000"

definition py_strip :: "pystr \<Rightarrow> pystr" where
  "py_strip s = rev (dropWhile is_space (rev (dropWhile is_space s)))"

definition ascii_lower :: "nat \<Rightarrow> nat" where
  "ascii_lower c = (if 65 \<le> c \<and> c \<le> 90 then c + 32 else c)"

definition py_lower :: "runtime \<Rightarrow> pystr \<Rightarrow> pystr" where
  "py_lower rt s = (if list_all (\<lambda>c. c < 128) s then map ascii_lower s else unicode_lower rt s)"

section \<open>\<open>struct.pack\<close> / \<open>struct.unpack\<close> and slices\<close>

definition slice :: "nat \<Rightarrow> nat \<Rightarrow> 'a list \<Rightarrow> 'a list" where
  "slice a b xs = take (b - a) (drop a xs)"

fun le_nat :: "bytes \<Rightarrow> nat" where
  "le_nat [] = 0"
| "le_nat (b # bs) = unat b + 256 * le_nat bs"

primrec le_bytes :: "nat \<Rightarrow> nat \<Rightarrow> bytes" where
  "le_bytes 0 n = []"
| "le_bytes (Suc k) n = of_nat (n mod 256) # le_bytes k (n div 256)"

definition unpack_I :: "bytes \<Rightarrow> error + nat" where
  "unpack_I bs = (if length bs = 4 then Inr (le_nat bs) else Inl StructError)"

definition unpack_H :: "bytes \<Rightarrow> error + nat" where
  "unpack_H bs = (if length bs = 2 then Inr (le_nat bs) else Inl StructError)"

definition pack_I :: "nat \<Rightarrow> error + bytes" where
  "pack_I n = (if n < 2 ^ 32 then Inr (le_bytes 4 n) else Inl StructError)"

definition pack_H :: "nat \<Rightarrow> error + bytes" where
  "pack_H n = (if n < 2 ^ 16 then Inr (le_bytes 2 n) else Inl StructError)"

section \<open>The in-memory table of \<open>DBFWriter\<close>\<close>

record hdr =
  version :: byte
  year :: byte
  month :: byte
  day :: byte
  num_records :: nat
  header_length :: nat
  record_length :: nat

record field =
  fname :: pystr
  ftype :: nat
  flength :: nat
  fdecimal :: nat

record table =
  header :: hdr
  records :: "bytes list"
  field_descriptors :: "field list"

section \<open>\<open>DBFWriter.read_dbf\<close>\<close>

text \<open>
  The header dictionary is built from the first 32 bytes read. Indexing a missing byte
  raises \<open>IndexError\<close>; unpacking a slice of the wrong size raises \<open>struct.error\<close>.
\<close>

definition parse_header :: "bytes \<Rightarrow> error + hdr" where
  "parse_header header_data =
     (if length header_data < 4 then Inl IndexError
      else case unpack_I (slice 4 8 header_data) of Inl e \<Rightarrow> Inl e | Inr n \<Rightarrow>
        (case unpack_H (slice 8 10 header_data) of Inl e \<Rightarrow> Inl e | Inr hl \<Rightarrow>
          (case unpack_H (slice 10 12 header_data) of Inl e \<Rightarrow> Inl e | Inr rl \<Rightarrow>
             Inr \<lparr>version = header_data ! 0, year = header_data ! 1, month = header_data ! 2,
                  day = header_data ! 3, num_records = n, header_length = hl,
                  record_length = rl\<rparr>)))"

definition strip_nul :: "pystr \<Rightarrow> pystr" where
  "strip_nul s = rev (dropWhile (\<lambda>c. c = 0) (rev (dropWhile (\<lambda>c. c = 0) s)))"

text \<open>
  One 32-byte read in the descriptor loop: \<open>None\<close> is the terminator \<open>0x0D\<close>. The name is
  decoded strictly (a byte above \<open>0x7F\<close> raises), then bytes 11, 16 and 17 are indexed.
\<close>

definition parse_field :: "bytes \<Rightarrow> error + field option" where
  "parse_field field_data =
     (if field_data = [] then Inl IndexError
      else if field_data ! 0 = 0x0D then Inr None
      else if \<not> list_all (\<lambda>b. b < 0x80) (slice 0 11 field_data) then Inl UnicodeDecodeError
      else if length field_data < 18 then Inl IndexError
      else Inr (Some \<lparr>fname = strip_nul (map unat (slice 0 11 field_data)),
                      ftype = unat (field_data ! 11),
                      flength = unat (field_data ! 16),
                      fdecimal = unat (field_data ! 17)\<rparr>))"

text \<open>
  The \<open>while True\<close> loop: every pass reads 32 bytes (fewer at the end of the file), also
  the pass that finds the terminator. The result is the descriptor list and the rest of
  the file after the last read.
\<close>

function read_fields :: "bytes \<Rightarrow> error + (field list \<times> bytes)" where
  "read_fields d =
     (case parse_field (take 32 d) of
        Inl e \<Rightarrow> Inl e
      | Inr None \<Rightarrow> Inr ([], drop 32 d)
      | Inr (Some f) \<Rightarrow>
          (case read_fields (drop 32 d) of
             Inl e \<Rightarrow> Inl e
           | Inr (fs, rest) \<Rightarrow> Inr (f # fs, rest)))"
  by pat_completeness auto
termination
  by (relation "measure length") (auto simp: parse_field_def split: if_splits)

declare read_fields.simps [simp del]

text \<open>\<open>for _ in range(num_records): records.append(f.read(record_length))\<close>\<close>

primrec read_records :: "nat \<Rightarrow> nat \<Rightarrow> bytes \<Rightarrow> bytes list" where
  "read_records 0 rl d = []"
| "read_records (Suc n) rl d = take rl d # read_records n rl (drop rl d)"

definition read_dbf :: "bytes \<Rightarrow> error + table" where
  "read_dbf d =
     (case parse_header (take 32 d) of Inl e \<Rightarrow> Inl e | Inr h \<Rightarrow>
        (case read_fields (drop 32 d) of Inl e \<Rightarrow> Inl e | Inr (fds, rest) \<Rightarrow>
           Inr \<lparr>header = h,
                records = read_records (num_records h) (record_length h) rest,
                field_descriptors = fds\<rparr>))"

section \<open>\<open>DBFWriter.record_exists\<close>\<close>

text \<open>
  \<open>record[1:81].decode('ascii', errors='ignore').strip()\<close>
\<close>

definition record_name :: "bytes \<Rightarrow> pystr" where
  "record_name r = py_strip (decode_ascii_ignore (take 80 (drop 1 r)))"

text \<open>
  The loop of \<open>record_exists\<close>: a record whose first byte is \<open>*\<close> is skipped by
  \<open>continue\<close>; the first other record whose name matches returns \<open>True\<close>.
\<close>

fun record_exists :: "runtime \<Rightarrow> bytes list \<Rightarrow> pystr \<Rightarrow> bool" where
  "record_exists rt [] name = False"
| "record_exists rt (r # rs) name =
     (if take 1 r = [0x2A] then record_exists rt rs name
      else if py_lower rt (record_name r) = py_lower rt name then True
      else record_exists rt rs name)"

section \<open>Number formatting\<close>

function dec_digits :: "nat \<Rightarrow> pystr" where
  "dec_digits n = (if n < 10 then [48 + n] else dec_digits (n div 10) @ [48 + n mod 10])"
  by pat_completeness auto
termination
  by (relation "measure id") auto

declare dec_digits.simps [simp del]

definition str_of_int :: "int \<Rightarrow> pystr" where
  "str_of_int i = (if i < 0 then 45 # dec_digits (nat (- i)) else dec_digits (nat i))"

definition rjust :: "nat \<Rightarrow> nat list \<Rightarrow> nat list" where
  "rjust w s = replicate (w - length s) 32 @ s"

definition rjust_bytes :: "nat \<Rightarrow> bytes \<Rightarrow> bytes" where
  "rjust_bytes w s = replicate (w - length s) 0x20 @ s"

definition ljust_bytes :: "nat \<Rightarrow> bytes \<Rightarrow> bytes" where
  "ljust_bytes w s = s @ replicate (w - length s) 0x20"

text \<open>Division of naturals rounded to nearest, ties to even.\<close>

definition div_half_even :: "nat \<Rightarrow> nat \<Rightarrow> nat" where
  "div_half_even a b =
     (let q = a div b; r = a mod b
      in if 2 * r > b \<or> (2 * r = b \<and> odd q) then q + 1 else q)"

text \<open>
  The digits of \<open>m * 2^e\<close> in fixed-point notation with \<open>p\<close> fractional digits, correctly
  rounded: what the presentation type \<open>f\<close> prints for a finite float, without the sign.
\<close>

definition fixed_digits :: "nat \<Rightarrow> nat \<Rightarrow> int \<Rightarrow> pystr" where
  "fixed_digits p m e =
     (let scaled = (if 0 \<le> e then m * 2 ^ nat e * 10 ^ p
                    else div_half_even (m * 10 ^ p) (2 ^ nat (- e)));
          ip = scaled div 10 ^ p;
          fp = dec_digits (scaled mod 10 ^ p)
      in dec_digits ip @ (if p = 0 then [] else 46 # replicate (p - length fp) 48 @ fp))"

text \<open>\<open>f"{x:{w}.{p}f}"\<close> and \<open>f"{i:{w}d}"\<close>\<close>

definition format_f :: "nat \<Rightarrow> nat \<Rightarrow> pyfloat \<Rightarrow> pystr" where
  "format_f w p x =
     rjust w (case x of
                Fin s m e \<Rightarrow> (if s then [45] else []) @ fixed_digits p m e
              | Inf s \<Rightarrow> (if s then ascii ''-inf'' else ascii ''inf'')
              | NaN \<Rightarrow> ascii ''nan'')"

definition format_d :: "nat \<Rightarrow> int \<Rightarrow> pystr" where
  "format_d w i = rjust w (str_of_int i)"

function bit_length :: "nat \<Rightarrow> nat" where
  "bit_length n = (if n = 0 then 0 else Suc (bit_length (n div 2)))"
  by pat_completeness auto
termination
  by (relation "measure id") auto

declare bit_length.simps [simp del]

text \<open>
  \<open>float(i)\<close> for an integer: exact up to 53 bits, rounded to nearest-even beyond, and
  \<open>OverflowError\<close> when the result does not fit a double.
\<close>

definition int_to_float :: "int \<Rightarrow> error + pyfloat" where
  "int_to_float i =
     (let a = nat \<bar>i\<bar>; k = bit_length a
      in if k \<le> 53 then Inr (Fin (i < 0) a 0)
         else let sh = k - 53; q = div_half_even a (2 ^ sh)
              in if q * 2 ^ sh \<ge> 2 ^ 1024 then Inl OverflowError
                 else Inr (Fin (i < 0) q (int sh)))"

text \<open>\<open>float(value)\<close>\<close>

definition to_float :: "runtime \<Rightarrow> pyval \<Rightarrow> error + pyfloat" where
  "to_float rt v =
     (case v of
        PNone \<Rightarrow> Inl TypeError
      | PBool b \<Rightarrow> Inr (Fin False (if b then 1 else 0) 0)
      | PInt i \<Rightarrow> int_to_float i
      | PFloat x \<Rightarrow> Inr x
      | PStr s \<Rightarrow> (case float_of_str rt s of None \<Rightarrow> Inl ValueError | Some x \<Rightarrow> Inr x))"

text \<open>\<open>int(x)\<close> for a float: truncation towards zero.\<close>

definition int_of_float :: "pyfloat \<Rightarrow> error + int" where
  "int_of_float x =
     (case x of
        Fin s m e \<Rightarrow>
          Inr ((if s then - 1 else 1) *
               int (if 0 \<le> e then m * 2 ^ nat e else m div 2 ^ nat (- e)))
      | Inf s \<Rightarrow> Inl OverflowError
      | NaN \<Rightarrow> Inl ValueError)"

text \<open>
  \<open>str(i)\<close> for an integer raises \<open>ValueError\<close> when the limit is on and \<open>i\<close> has more
  decimal digits than the limit. (The integer that \<open>format_d\<close> prints comes from a float
  and has at most 309 digits, fewer than any limit an interpreter accepts.)
\<close>

definition int_to_str :: "runtime \<Rightarrow> int \<Rightarrow> error + pystr" where
  "int_to_str rt i =
     (if 0 < int_max_str_digits rt \<and> int_max_str_digits rt < length (dec_digits (nat \<bar>i\<bar>))
      then Inl ValueError
      else Inr (str_of_int i))"

text \<open>\<open>str(value)\<close>, truthiness, and the two ASCII encoders.\<close>

definition py_str :: "runtime \<Rightarrow> pyval \<Rightarrow> error + pystr" where
  "py_str rt v =
     (case v of
        PNone \<Rightarrow> Inr (ascii ''None'')
      | PBool b \<Rightarrow> Inr (if b then ascii ''True'' else ascii ''False'')
      | PInt i \<Rightarrow> int_to_str rt i
      | PFloat x \<Rightarrow> Inr (float_repr rt x)
      | PStr s \<Rightarrow> Inr s)"

definition truthy :: "pyval \<Rightarrow> bool" where
  "truthy v =
     (case v of
        PNone \<Rightarrow> False
      | PBool b \<Rightarrow> b
      | PInt i \<Rightarrow> i \<noteq> 0
      | PFloat x \<Rightarrow> (case x of Fin s m e \<Rightarrow> m \<noteq> 0 | _ \<Rightarrow> True)
      | PStr s \<Rightarrow> s \<noteq> [])"

definition encode_strict :: "pystr \<Rightarrow> error + bytes" where
  "encode_strict s = (if list_all (\<lambda>c. c < 128) s then Inr (map of_nat s) else Inl ValueError)"

definition encode_ignore :: "pystr \<Rightarrow> bytes" where
  "encode_ignore s = map of_nat (filter (\<lambda>c. c < 128) s)"

definition encode_replace :: "pystr \<Rightarrow> bytes" where
  "encode_replace s = map (\<lambda>c. if c < 128 then of_nat c else 0x3F) s"

section \<open>\<open>DBFWriter.format_value\<close>\<close>

definition spaces :: "nat \<Rightarrow> bytes" where
  "spaces n = replicate n 0x20"

text \<open>
  The body of the \<open>try\<close> block of the Numeric branch: \<open>formatted_text\<close> is the variable
  \<open>formatted\<close>, \<open>numeric_try\<close> the value returned. Every exception raised there is caught
  by the bare \<open>except\<close> of \<open>format_value\<close>.
\<close>

definition formatted_text :: "runtime \<Rightarrow> pyval \<Rightarrow> nat \<Rightarrow> nat \<Rightarrow> error + pystr" where
  "formatted_text rt v field_length field_decimal =
     (case to_float rt v of Inl e \<Rightarrow> Inl e | Inr x \<Rightarrow>
        (if field_decimal > 0 then Inr (format_f field_length field_decimal x)
         else (case int_of_float x of Inl e \<Rightarrow> Inl e
               | Inr i \<Rightarrow> Inr (format_d field_length i))))"

definition numeric_try :: "runtime \<Rightarrow> pyval \<Rightarrow> nat \<Rightarrow> nat \<Rightarrow> error + bytes" where
  "numeric_try rt v field_length field_decimal =
     (case formatted_text rt v field_length field_decimal of
        Inl e \<Rightarrow> Inl e
      | Inr formatted \<Rightarrow>
          (case encode_strict formatted of Inl e \<Rightarrow> Inl e
           | Inr b \<Rightarrow> Inr (rjust_bytes field_length (take field_length b))))"

definition format_value :: "runtime \<Rightarrow> pyval \<Rightarrow> nat \<Rightarrow> nat \<Rightarrow> nat \<Rightarrow> error + bytes" where
  "format_value rt v field_type field_length field_decimal =
     (if field_type = 78 then
        (if v = PNone \<or> v = PStr [] then Inr (spaces field_length)
         else (case numeric_try rt v field_length field_decimal of
                 Inl e \<Rightarrow> Inr (spaces field_length)
               | Inr b \<Rightarrow> Inr b))
      else if field_type = 67 then
        (case py_str rt (if v = PNone then PStr [] else v) of
           Inl e \<Rightarrow> Inl e
         | Inr s \<Rightarrow> Inr (ljust_bytes field_length (take field_length (encode_ignore s))))
      else if field_type = 76 then
        (if truthy v then Inr [0x54] else Inr [0x46])
      else Inr (spaces field_length))"

section \<open>\<open>DBFWriter.add_record\<close>\<close>

text \<open>
  Assignment to a slice of a \<open>bytearray\<close>: the slice bounds are clamped to the buffer,
  and the buffer shrinks or grows when the new data has another length than the slice.
\<close>

definition slice_assign :: "nat \<Rightarrow> nat \<Rightarrow> 'a list \<Rightarrow> 'a list \<Rightarrow> 'a list" where
  "slice_assign a b buf data =
     (let lo = min a (length buf); hi = max lo (min b (length buf))
      in take lo buf @ data @ drop hi buf)"

fun add_fields ::
  "runtime \<Rightarrow> (pystr \<rightharpoonup> pyval) \<Rightarrow> field list \<Rightarrow> nat \<Rightarrow> bytes \<Rightarrow> error + bytes" where
  "add_fields rt field_values [] offset record = Inr record"
| "add_fields rt field_values (f # fs) offset record =
     (case format_value rt (case field_values (fname f) of None \<Rightarrow> PNone | Some v \<Rightarrow> v)
             (ftype f) (flength f) (fdecimal f) of
        Inl e \<Rightarrow> Inl e
      | Inr formatted \<Rightarrow>
          add_fields rt field_values fs (offset + flength f)
            (slice_assign offset (offset + flength f) record formatted))"

definition add_record :: "runtime \<Rightarrow> table \<Rightarrow> (pystr \<rightharpoonup> pyval) \<Rightarrow> error + table" where
  "add_record rt db field_values =
     (if record_length (header db) = 0 then Inl IndexError
      else case add_fields rt field_values (field_descriptors db) 1
                  ((replicate (record_length (header db)) 0)[0 := 0x20]) of
             Inl e \<Rightarrow> Inl e
           | Inr record \<Rightarrow>
               Inr (db\<lparr>records := records db @ [record],
                       header := (header db)\<lparr>num_records := num_records (header db) + 1\<rparr>\<rparr>))"

section \<open>Files, the clock and \<open>DBFWriter.write_dbf\<close>\<close>

type_synonym fs = "string \<rightharpoonup> bytes"

text \<open>
  \<open>write_dbf\<close> reads the clock twice: once for the name of the backup (\<open>stamp\<close> is the
  text \<open>strftime\<close> returns) and once for the date of the header.
\<close>

record clock =
  stamp :: string
  today_year :: int
  today_month :: int
  today_day :: int

text \<open>Storing an integer into a \<open>bytearray\<close> raises \<open>ValueError\<close> outside \<open>range(256)\<close>.\<close>

definition byte_of_int :: "int \<Rightarrow> error + byte" where
  "byte_of_int i = (if 0 \<le> i \<and> i < 256 then Inr (of_int i) else Inl ValueError)"

text \<open>The header built by \<open>write_dbf\<close> from a zero-filled \<open>bytearray(32)\<close>.\<close>

definition encode_header :: "hdr \<Rightarrow> clock \<Rightarrow> error + bytes" where
  "encode_header h now =
     (let h0 = (replicate 32 0)[0 := version h] in
      case byte_of_int (today_year now - 1900) of Inl e \<Rightarrow> Inl e | Inr y \<Rightarrow>
      (case byte_of_int (today_month now) of Inl e \<Rightarrow> Inl e | Inr m \<Rightarrow>
      (case byte_of_int (today_day now) of Inl e \<Rightarrow> Inl e | Inr d \<Rightarrow>
      (case pack_I (num_records h) of Inl e \<Rightarrow> Inl e | Inr n \<Rightarrow>
      (case pack_H (header_length h) of Inl e \<Rightarrow> Inl e | Inr hl \<Rightarrow>
      (case pack_H (record_length h) of Inl e \<Rightarrow> Inl e | Inr rl \<Rightarrow>
         Inr (slice_assign 10 12
               (slice_assign 8 10
                 (slice_assign 4 8 (h0[1 := y, 2 := m, 3 := d]) n) hl) rl)))))))"

text \<open>
  The descriptor blocks are copied from the backup, from offset 32 on, 32 bytes at a
  time; for the terminator a single byte \<open>0x0D\<close> is written. The result is what was
  written and the exception that ended the loop, if any.
\<close>

function copy_fields :: "bytes \<Rightarrow> bytes \<times> error option" where
  "copy_fields d =
     (if take 32 d = [] then ([], Some IndexError)
      else if take 32 d ! 0 = 0x0D then ([0x0D], None)
      else (case copy_fields (drop 32 d) of (w, e) \<Rightarrow> (take 32 d @ w, e)))"
  by pat_completeness auto
termination
  by (relation "measure length") auto

declare copy_fields.simps [simp del]

definition backup_path :: "string \<Rightarrow> clock \<Rightarrow> string" where
  "backup_path dbf_path now = dbf_path @ ''.backup-'' @ stamp now"

definition write_dbf :: "string \<Rightarrow> clock \<Rightarrow> table \<Rightarrow> fs \<Rightarrow> fs \<times> error option" where
  "write_dbf dbf_path now db files =
     (let bp = backup_path dbf_path now;
          files1 = (case files dbf_path of None \<Rightarrow> files
                    | Some d \<Rightarrow> (files(dbf_path := None))(bp \<mapsto> d));
          files2 = files1(dbf_path \<mapsto> [])
      in case encode_header (header db) now of
           Inl e \<Rightarrow> (files2, Some e)
         | Inr header_bytes \<Rightarrow>
             (case files2 bp of
                None \<Rightarrow> (files2(dbf_path \<mapsto> header_bytes), Some FileNotFoundError)
              | Some orig \<Rightarrow>
                  (case copy_fields (drop 32 orig) of
                     (w, Some e) \<Rightarrow> (files2(dbf_path \<mapsto> header_bytes @ w), Some e)
                   | (w, None) \<Rightarrow>
                       (files2(dbf_path \<mapsto> header_bytes @ w @ concat (records db) @ [0x1A]), None))))"

section \<open>\<open>add_fertilizers_to_db\<close> of \<open>add-fertilizers.py\<close>\<close>

text \<open>The four dictionaries of the list \<open>fertilizers\<close>.\<close>

definition fertilizer_1 :: "pystr \<rightharpoonup> pyval" where
  "fertilizer_1 = map_of
     [(ascii ''Name'', PStr (ascii ''Jacks 5-12-26 Part A'')),
      (ascii ''Formula'', PStr (ascii ''NPK blend'')),
      (ascii ''Source'', PStr (ascii ''Jack'' @ [39] @ ascii ''s Nutrients'')),
      (ascii ''Purity'', PFloat (Fin False 1 0)),
      (ascii ''N (NO3-)'', PFloat (Fin False 5 0)),
      (ascii ''N (NH4+)'', PFloat (Fin False 0 0)),
      (ascii ''P'', PFloat (Fin False 2949857755927675 (- 49))),
      (ascii ''K'', PFloat (Fin False 1518557499353989 (- 46))),
      (ascii ''Mg'', PFloat (Fin False 7093169413108531 (- 50))),
      (ascii ''Ca'', PFloat (Fin False 0 0)),
      (ascii ''S'', PFloat (Fin False 17 (- 1))),
      (ascii ''B'', PFloat (Fin False 3602879701896397 (- 56))),
      (ascii ''Fe'', PFloat (Fin False 5404319552844595 (- 54))),
      (ascii ''Zn'', PFloat (Fin False 1080863910568919 (- 56))),
      (ascii ''Mn'', PFloat (Fin False 3602879701896397 (- 56))),
      (ascii ''Cu'', PFloat (Fin False 1080863910568919 (- 56))),
      (ascii ''Mo'', PFloat (Fin False 5476377146882523 (- 58))),
      (ascii ''Na'', PFloat (Fin False 0 0)),
      (ascii ''Si'', PFloat (Fin False 0 0)),
      (ascii ''Cl'', PFloat (Fin False 0 0)),
      (ascii ''isLiquid'', PInt 0),
      (ascii ''Density'', PFloat (Fin False 0 0)),
      (ascii ''Cost'', PFloat (Fin False 0 0)),
      (ascii ''ConcType'', PStr (ascii ''0''))]"

definition fertilizer_2 :: "pystr \<rightharpoonup> pyval" where
  "fertilizer_2 = map_of
     [(ascii ''Name'', PStr (ascii ''Jacks 0-12-26 Part A'')),
      (ascii ''Formula'', PStr (ascii ''PK blend'')),
      (ascii ''Source'', PStr (ascii ''Jack'' @ [39] @ ascii ''s Nutrients'')),
      (ascii ''Purity'', PFloat (Fin False 1 0)),
      (ascii ''N (NO3-)'', PFloat (Fin False 0 0)),
      (ascii ''N (NH4+)'', PFloat (Fin False 0 0)),
      (ascii ''P'', PFloat (Fin False 2949857755927675 (- 49))),
      (ascii ''K'', PFloat (Fin False 1518557499353989 (- 46))),
      (ascii ''Mg'', PFloat (Fin False 6 0)),
      (ascii ''Ca'', PFloat (Fin False 0 0)),
      (ascii ''S'', PFloat (Fin False 13 0)),
      (ascii ''B'', PFloat (Fin False 3602879701896397 (- 56))),
      (ascii ''Fe'', PFloat (Fin False 5404319552844595 (- 54))),
      (ascii ''Zn'', PFloat (Fin False 1080863910568919 (- 56))),
      (ascii ''Mn'', PFloat (Fin False 3602879701896397 (- 56))),
      (ascii ''Cu'', PFloat (Fin False 1080863910568919 (- 56))),
      (ascii ''Mo'', PFloat (Fin False 4150517416584649 (- 62))),
      (ascii ''Na'', PFloat (Fin False 0 0)),
      (ascii ''Si'', PFloat (Fin False 0 0)),
      (ascii ''Cl'', PFloat (Fin False 0 0)),
      (ascii ''isLiquid'', PInt 0),
      (ascii ''Density'', PFloat (Fin False 0 0)),
      (ascii ''Cost'', PFloat (Fin False 0 0)),
      (ascii ''ConcType'', PStr (ascii ''0''))]"

definition fertilizer_3 :: "pystr \<rightharpoonup> pyval" where
  "fertilizer_3 = map_of
     [(ascii ''Name'', PStr (ascii ''Jacks Calcium Nitrate'')),
      (ascii ''Formula'', PStr (ascii ''Ca(NO3)2'')),
      (ascii ''Source'', PStr (ascii ''Jack'' @ [39] @ ascii ''s Nutrients'')),
      (ascii ''Purity'', PFloat (Fin False 1 0)),
      (ascii ''N (NO3-)'', PFloat (Fin False 31 (- 1))),
      (ascii ''N (NH4+)'', PFloat (Fin False 0 0)),
      (ascii ''P'', PFloat (Fin False 0 0)),
      (ascii ''K'', PFloat (Fin False 0 0)),
      (ascii ''Mg'', PFloat (Fin False 0 0)),
      (ascii ''Ca'', PFloat (Fin False 19 0)),
      (ascii ''S'', PFloat (Fin False 0 0)),
      (ascii ''B'', PFloat (Fin False 0 0)),
      (ascii ''Fe'', PFloat (Fin False 0 0)),
      (ascii ''Zn'', PFloat (Fin False 0 0)),
      (ascii ''Mn'', PFloat (Fin False 0 0)),
      (ascii ''Cu'', PFloat (Fin False 0 0)),
      (ascii ''Mo'', PFloat (Fin False 0 0)),
      (ascii ''Na'', PFloat (Fin False 0 0)),
      (ascii ''Si'', PFloat (Fin False 0 0)),
      (ascii ''Cl'', PFloat (Fin False 0 0)),
      (ascii ''isLiquid'', PInt 0),
      (ascii ''Density'', PFloat (Fin False 0 0)),
      (ascii ''Cost'', PFloat (Fin False 0 0)),
      (ascii ''ConcType'', PStr (ascii ''1''))]"

definition fertilizer_4 :: "pystr \<rightharpoonup> pyval" where
  "fertilizer_4 = map_of
     [(ascii ''Name'', PStr (ascii ''Calcium Sulfate'')),
      (ascii ''Formula'', PStr (ascii ''CaSO4'' @ [183] @ ascii ''2H2O'')),
      (ascii ''Source'', PStr (ascii ''Generic'')),
      (ascii ''Purity'', PFloat (Fin False 1 0)),
      (ascii ''N (NO3-)'', PFloat (Fin False 0 0)),
      (ascii ''N (NH4+)'', PFloat (Fin False 0 0)),
      (ascii ''P'', PFloat (Fin False 0 0)),
      (ascii ''K'', PFloat (Fin False 0 0)),
      (ascii ''Mg'', PFloat (Fin False 0 0)),
      (ascii ''Ca'', PFloat (Fin False 22 0)),
      (ascii ''S'', PFloat (Fin False 17 0)),
      (ascii ''B'', PFloat (Fin False 0 0)),
      (ascii ''Fe'', PFloat (Fin False 0 0)),
      (ascii ''Zn'', PFloat (Fin False 0 0)),
      (ascii ''Mn'', PFloat (Fin False 0 0)),
      (ascii ''Cu'', PFloat (Fin False 0 0)),
      (ascii ''Mo'', PFloat (Fin False 0 0)),
      (ascii ''Na'', PFloat (Fin False 0 0)),
      (ascii ''Si'', PFloat (Fin False 0 0)),
      (ascii ''Cl'', PFloat (Fin False 0 0)),
      (ascii ''isLiquid'', PInt 0),
      (ascii ''Density'', PFloat (Fin False 0 0)),
      (ascii ''Cost'', PFloat (Fin False 0 0)),
      (ascii ''ConcType'', PStr [])]"

definition fertilizers :: "(pystr \<rightharpoonup> pyval) list" where
  "fertilizers = [fertilizer_1, fertilizer_2, fertilizer_3, fertilizer_4]"

text \<open>
  \<open>db.record_exists(fert['Name'])\<close> for a dictionary value: \<open>name.lower()\<close> is evaluated
  at the first record that is not skipped, and raises for a value that is not a string.
\<close>

definition record_exists_val :: "runtime \<Rightarrow> bytes list \<Rightarrow> pyval \<Rightarrow> error + bool" where
  "record_exists_val rt recs v =
     (case v of
        PStr name \<Rightarrow> Inr (record_exists rt recs name)
      | _ \<Rightarrow> (if list_all (\<lambda>r. take 1 r = [0x2A]) recs then Inr False else Inl AttributeError))"

text \<open>The loop over the candidates, with the table and \<open>added_count\<close> as state.\<close>

fun add_loop ::
  "runtime \<Rightarrow> table \<Rightarrow> (pystr \<rightharpoonup> pyval) list \<Rightarrow> nat \<Rightarrow> error + (table \<times> nat)" where
  "add_loop rt db [] added_count = Inr (db, added_count)"
| "add_loop rt db (fert # ferts) added_count =
     (case fert (ascii ''Name'') of
        None \<Rightarrow> Inl KeyError
      | Some name \<Rightarrow>
          (case record_exists_val rt (records db) name of
             Inl e \<Rightarrow> Inl e
           | Inr True \<Rightarrow> add_loop rt db ferts added_count
           | Inr False \<Rightarrow>
               (case add_record rt db fert of
                  Inl e \<Rightarrow> Inl e
                | Inr db' \<Rightarrow> add_loop rt db' ferts (added_count + 1))))"

text \<open>
  The batch over any list of candidates: the body of \<open>add_fertilizers_to_db\<close>. The result
  is the file system afterwards and the value returned, or the exception that escaped.
\<close>

definition apply_batch ::
  "runtime \<Rightarrow> clock \<Rightarrow> string \<Rightarrow> (pystr \<rightharpoonup> pyval) list \<Rightarrow> fs \<Rightarrow> fs \<times> (error + bool)" where
  "apply_batch rt now db_path ferts files =
     (case files db_path of
        None \<Rightarrow> (files, Inr False)
      | Some d \<Rightarrow>
          (case read_dbf d of
             Inl e \<Rightarrow> (files, Inl e)
           | Inr db \<Rightarrow>
               (case add_loop rt db ferts 0 of
                  Inl e \<Rightarrow> (files, Inl e)
                | Inr (db', added_count) \<Rightarrow>
                    (if added_count > 0 then
                       (case write_dbf db_path now db' files of
                          (files', Some e) \<Rightarrow> (files', Inl e)
                        | (files', None) \<Rightarrow> (files', Inr True))
                     else (files, Inr False)))))"

definition add_fertilizers_to_db :: "runtime \<Rightarrow> clock \<Rightarrow> string \<Rightarrow> fs \<Rightarrow> fs \<times> (error + bool)" where
  "add_fertilizers_to_db rt now db_path files = apply_batch rt now db_path fertilizers files"

section \<open>The CSV variant \<open>docs/add-fertilizers.py\<close>\<close>

text \<open>\<open>value[:length].ljust(length).encode('ascii', errors='replace')\<close>\<close>

definition format_string_field :: "pystr \<Rightarrow> nat \<Rightarrow> bytes" where
  "format_string_field v n = encode_replace (take n v @ replicate (n - length (take n v)) 32)"

text \<open>\<open>f"{float(value):18.8f}".encode('ascii')\<close>\<close>

definition format_numeric_field :: "runtime \<Rightarrow> pyval \<Rightarrow> error + bytes" where
  "format_numeric_field rt v =
     (case to_float rt v of Inl e \<Rightarrow> Inl e | Inr x \<Rightarrow> encode_strict (format_f 18 8 x))"

definition nutrient_keys :: "pystr list" where
  "nutrient_keys =
     [ascii ''N_NO3'', ascii ''N_NH4'', ascii ''P'', ascii ''K'', ascii ''Mg'', ascii ''Ca'',
      ascii ''S'', ascii ''B'', ascii ''Fe'', ascii ''Zn'', ascii ''Mn'', ascii ''Cu'',
      ascii ''Mo'', ascii ''Na'', ascii ''Si'', ascii ''Cl'']"

text \<open>
  The run of numeric fields of \<open>create_fertilizer_record\<close>: each value is written into
  the 18-byte slice at \<open>offset\<close>, and \<open>offset\<close> advances by 18.
\<close>

fun put_numerics :: "runtime \<Rightarrow> pyval list \<Rightarrow> nat \<Rightarrow> bytes \<Rightarrow> error + (bytes \<times> nat)" where
  "put_numerics rt [] offset record = Inr (record, offset)"
| "put_numerics rt (v # vs) offset record =
     (case format_numeric_field rt v of
        Inl e \<Rightarrow> Inl e
      | Inr b \<Rightarrow> put_numerics rt vs (offset + 18) (slice_assign offset (offset + 18) record b))"

definition create_fertilizer_record ::
  "runtime \<Rightarrow> pystr \<Rightarrow> pystr \<Rightarrow> pystr \<Rightarrow> pyval \<Rightarrow> (pystr \<rightharpoonup> pyval) \<Rightarrow> pyval \<Rightarrow> pyval \<Rightarrow> pyval
     \<Rightarrow> pystr \<Rightarrow> error + bytes" where
  "create_fertilizer_record rt nm formula source purity nutrients isliquid density cost conctype =
     (let r0 = (replicate 681 0)[0 := 0x20];
          r1 = slice_assign 1 81 r0 (format_string_field nm 80);
          r2 = slice_assign 81 161 r1 (format_string_field formula 80);
          r3 = slice_assign 161 241 r2 (format_string_field source 80)
      in case put_numerics rt
                (purity # map (\<lambda>k. case nutrients k of None \<Rightarrow> PInt 0 | Some v \<Rightarrow> v) nutrient_keys
                 @ [isliquid, density, cost]) 241 r3 of
           Inl e \<Rightarrow> Inl e
         | Inr (r4, offset) \<Rightarrow>
             (let remaining = 681 - offset
              in Inr (slice_assign offset (offset + remaining) r4
                        (format_string_field conctype remaining))))"

text \<open>The dictionaries built by \<open>load_fertilizers_from_csv\<close>.\<close>

record csv_fert =
  c_name :: pystr
  c_formula :: pystr
  c_source :: pystr
  c_purity :: pyfloat
  c_nutrients :: "pystr \<rightharpoonup> pyfloat"
  c_isliquid :: int
  c_density :: pyfloat
  c_cost :: pyfloat
  c_conctype :: pystr

text \<open>
  \<open>fertilizer_exists\<close>: the records are cut out of the file at
  \<open>header_length + i * record_length\<close>; \<open>record[0]\<close> raises on an empty record.
\<close>

fun fertilizer_exists_loop ::
  "runtime \<Rightarrow> bytes \<Rightarrow> nat \<Rightarrow> nat \<Rightarrow> pystr \<Rightarrow> nat \<Rightarrow> nat \<Rightarrow> error + bool" where
  "fertilizer_exists_loop rt d hl rl nm 0 i = Inr False"
| "fertilizer_exists_loop rt d hl rl nm (Suc n) i =
     (let record = slice (hl + i * rl) (hl + i * rl + rl) d
      in if record = [] then Inl IndexError
         else if record ! 0 = 0x2A then fertilizer_exists_loop rt d hl rl nm n (i + 1)
         else if py_lower rt (record_name record) = py_lower rt nm then Inr True
         else fertilizer_exists_loop rt d hl rl nm n (i + 1))"

definition fertilizer_exists :: "runtime \<Rightarrow> fs \<Rightarrow> string \<Rightarrow> pystr \<Rightarrow> error + bool" where
  "fertilizer_exists rt files dbf_path nm =
     (case files dbf_path of
        None \<Rightarrow> Inl FileNotFoundError
      | Some d \<Rightarrow>
          (case unpack_H (slice 8 10 d) of Inl e \<Rightarrow> Inl e | Inr hl \<Rightarrow>
          (case unpack_H (slice 10 12 d) of Inl e \<Rightarrow> Inl e | Inr rl \<Rightarrow>
          (case unpack_I (slice 4 8 d) of Inl e \<Rightarrow> Inl e | Inr n \<Rightarrow>
             fertilizer_exists_loop rt d hl rl nm n 0))))"

text \<open>
  The loop of the CSV variant appends to the in-memory copy \<open>data\<close> of the file, while
  \<open>fertilizer_exists\<close> reads the file on disk, which the loop does not change.
\<close>

fun csv_add_loop ::
  "runtime \<Rightarrow> fs \<Rightarrow> string \<Rightarrow> csv_fert list \<Rightarrow> bytes \<Rightarrow> nat \<Rightarrow> nat
     \<Rightarrow> error + (bytes \<times> nat \<times> nat)" where
  "csv_add_loop rt files dbf_path [] d num added_count = Inr (d, num, added_count)"
| "csv_add_loop rt files dbf_path (fert # ferts) d num added_count =
     (case fertilizer_exists rt files dbf_path (c_name fert) of
        Inl e \<Rightarrow> Inl e
      | Inr True \<Rightarrow> csv_add_loop rt files dbf_path ferts d num added_count
      | Inr False \<Rightarrow>
          (case create_fertilizer_record rt (c_name fert) (c_formula fert) (c_source fert)
                  (PFloat (c_purity fert)) (map_option PFloat \<circ> c_nutrients fert)
                  (PInt (c_isliquid fert)) (PFloat (c_density fert)) (PFloat (c_cost fert))
                  (c_conctype fert) of
             Inl e \<Rightarrow> Inl e
           | Inr new_record \<Rightarrow>
               (if d = [] then Inl IndexError
                else csv_add_loop rt files dbf_path ferts
                       ((if last d = 0x1A then butlast d else d) @ new_record)
                       (num + 1) (added_count + 1))))"

text \<open>The body of the \<open>try\<close> block of the CSV variant's \<open>add_fertilizers_to_db\<close>.\<close>

definition csv_try ::
  "runtime \<Rightarrow> clock \<Rightarrow> string \<Rightarrow> csv_fert list \<Rightarrow> fs \<Rightarrow> bytes \<Rightarrow> error + (fs \<times> bool)" where
  "csv_try rt now dbf_path ferts files d =
     (case unpack_I (slice 4 8 d) of Inl e \<Rightarrow> Inl e | Inr num \<Rightarrow>
     (case unpack_H (slice 8 10 d) of Inl e \<Rightarrow> Inl e | Inr hl \<Rightarrow>
     (case unpack_H (slice 10 12 d) of Inl e \<Rightarrow> Inl e | Inr rl \<Rightarrow>
     (case csv_add_loop rt files dbf_path ferts d num 0 of
        Inl e \<Rightarrow> Inl e
      | Inr (d1, num1, added_count) \<Rightarrow>
          (if added_count > 0 then
             (case pack_I num1 of Inl e \<Rightarrow> Inl e | Inr nb \<Rightarrow>
             (case byte_of_int (today_year now - 1900) of Inl e \<Rightarrow> Inl e | Inr y \<Rightarrow>
             (case byte_of_int (today_month now) of Inl e \<Rightarrow> Inl e | Inr m \<Rightarrow>
             (case byte_of_int (today_day now) of Inl e \<Rightarrow> Inl e | Inr dd \<Rightarrow>
                Inr (((files(dbf_path := None))(backup_path dbf_path now \<mapsto> d))
                       (dbf_path \<mapsto> (slice_assign 4 8 d1 nb)[1 := y, 2 := m, 3 := dd] @ [0x1A]),
                     True)))))
           else Inr (files, False))))))"

definition csv_add_fertilizers_to_db ::
  "runtime \<Rightarrow> clock \<Rightarrow> string \<Rightarrow> csv_fert list \<Rightarrow> fs \<Rightarrow> fs \<times> bool" where
  "csv_add_fertilizers_to_db rt now dbf_path ferts files =
     (case files dbf_path of
        None \<Rightarrow> (files, False)
      | Some d \<Rightarrow>
          (if ferts = [] then (files, False)
           else (case csv_try rt now dbf_path ferts files d of
                   Inl e \<Rightarrow> (files, False)
                 | Inr r \<Rightarrow> r)))"

section \<open>Sample inputs\<close>

text \<open>
  A runtime with the default limit of 4300 digits whose other parameters are trivial, a
  clock, and small tables: a 32-byte
  header (with a non-zero reserved byte 29), one 32-byte descriptor block per field and
  the terminator.
\<close>

definition rt0 :: runtime where
  "rt0 = \<lparr>unicode_lower = (\<lambda>s. s), float_of_str = (\<lambda>s. None), float_repr = (\<lambda>f. []),
           int_max_str_digits = 4300\<rparr>"

definition now0 :: clock where
  "now0 = \<lparr>stamp = ''20240101-120000'', today_year = 2024, today_month = 1, today_day = 1\<rparr>"

definition now1 :: clock where
  "now1 = \<lparr>stamp = ''20240102-120000'', today_year = 2024, today_month = 1, today_day = 2\<rparr>"

definition now2156 :: clock where
  "now2156 = \<lparr>stamp = ''21560101-120000'', today_year = 2156, today_month = 1, today_day = 1\<rparr>"

definition descriptor_block :: "string \<Rightarrow> char \<Rightarrow> nat \<Rightarrow> nat \<Rightarrow> bytes" where
  "descriptor_block n t l d =
     encode_ascii n @ replicate (11 - length n) 0 @ [of_char t] @ replicate 4 0
     @ [of_nat l, of_nat d] @ replicate 14 0"

definition sample_header :: "nat \<Rightarrow> nat \<Rightarrow> nat \<Rightarrow> bytes" where
  "sample_header n hl rl =
     [3, 120, 1, 1] @ le_bytes 4 n @ le_bytes 2 hl @ le_bytes 2 rl @ replicate 17 0 @ [3, 0, 0]"

text \<open>An empty table with the single field \<open>Name\<close> (Character, 80 bytes).\<close>

definition names_file :: bytes where
  "names_file = sample_header 0 65 81 @ descriptor_block ''Name'' CHR ''C'' 80 0 @ [0x0D, 0x1A]"

text \<open>An active record of that table.\<close>

definition name_record :: "string \<Rightarrow> bytes" where
  "name_record s = 0x20 # encode_ascii s @ replicate (80 - length s) 0x20"

text \<open>
  The file after one run of \<open>add_fertilizers_to_db\<close> on \<open>names_file\<close> on 2024-01-01:
  the new header, the descriptor, the terminator, four records and the end-of-file byte.
\<close>

definition names_file_after :: bytes where
  "names_file_after =
     [3, 124, 1, 1, 4, 0, 0, 0, 65, 0, 81, 0] @ replicate 20 0
     @ descriptor_block ''Name'' CHR ''C'' 80 0 @ [0x0D]
     @ name_record ''Jacks 5-12-26 Part A'' @ name_record ''Jacks 0-12-26 Part A''
     @ name_record ''Jacks Calcium Nitrate'' @ name_record ''Calcium Sulfate'' @ [0x1A]"

text \<open>The files after that run: the backup and the rewritten table.\<close>

definition files_after :: fs where
  "files_after =
     [''db'' \<mapsto> names_file]
       (''db'' := None, backup_path ''db'' now0 \<mapsto> names_file, ''db'' \<mapsto> names_file_after)"

text \<open>An integer of 4301 decimal digits.\<close>

definition huge :: nat where
  "huge = 10 ^ 4300"

text \<open>The nutrient dictionary of a CSV row whose sixteen nutrient columns are all \<open>0.0\<close>.\<close>

definition zero_nutrients :: "pystr \<rightharpoonup> pyval" where
  "zero_nutrients = map_of (map (\<lambda>k. (k, PFloat (Fin False 0 0))) nutrient_keys)"

text \<open>A header that declares one record of 10 bytes, followed by the terminator only.\<close>

definition truncated_file :: bytes where
  "truncated_file = sample_header 1 33 10 @ [0x0D]"

section \<open>Evaluation rules\<close>

lemma replicate_numeral: "replicate (numeral k) x = x # replicate (pred_numeral k) x"
  by (simp add: numeral_eq_Suc)

lemma list_update_numeral: "(x # xs)[numeral k := y] = x # xs[pred_numeral k := y]"
  by (simp add: numeral_eq_Suc)

lemma read_records_numeral:
  "read_records (numeral k) rl d = take rl d # read_records (pred_numeral k) rl (drop rl d)"
  by (simp add: numeral_eq_Suc)

lemma le_bytes_numeral:
  "le_bytes (numeral k) n = of_nat (n mod 256) # le_bytes (pred_numeral k) (n div 256)"
  by (simp only: numeral_eq_Suc [of k] le_bytes.simps)

lemmas list_eval = replicate_numeral list_update_numeral read_records_numeral le_bytes_numeral

lemma read_fields_end:
  "parse_field (take 32 d) = Inr None \<Longrightarrow> read_fields d = Inr ([], drop 32 d)"
  by (subst read_fields.simps) simp

lemma read_fields_step:
  "parse_field (take 32 d) = Inr (Some f) \<Longrightarrow>
   read_fields d = (case read_fields (drop 32 d) of Inl e \<Rightarrow> Inl e
                    | Inr (fs, rest) \<Rightarrow> Inr (f # fs, rest))"
  by (subst read_fields.simps) simp

lemma read_fields_error: "parse_field (take 32 d) = Inl e \<Longrightarrow> read_fields d = Inl e"
  by (subst read_fields.simps) simp

lemma copy_fields_eof: "take 32 d = [] \<Longrightarrow> copy_fields d = ([], Some IndexError)"
  by (subst copy_fields.simps) simp

lemma copy_fields_end:
  "take 32 d \<noteq> [] \<Longrightarrow> take 32 d ! 0 = 0x0D \<Longrightarrow> copy_fields d = ([0x0D], None)"
  by (subst copy_fields.simps) simp

lemma copy_fields_step:
  "take 32 d \<noteq> [] \<Longrightarrow> take 32 d ! 0 \<noteq> 0x0D \<Longrightarrow>
   copy_fields d = (case copy_fields (drop 32 d) of (w, e) \<Rightarrow> (take 32 d @ w, e))"
  by (subst copy_fields.simps) simp

lemma dec_digits_small: "n < 10 \<Longrightarrow> dec_digits n = [48 + n]"
  by (subst dec_digits.simps) simp

lemma dec_digits_large: "\<not> n < 10 \<Longrightarrow> dec_digits n = dec_digits (n div 10) @ [48 + n mod 10]"
  by (subst dec_digits.simps) simp

lemmas format_eval = format_f_def fixed_digits_def rjust_def rjust_bytes_def encode_strict_def
  dec_digits_small dec_digits_large Let_def ascii_def encode_ascii_def div_half_even_def
  replicate_numeral

section \<open>Bytes of the samples\<close>

lemma names_file_bytes:
  "names_file =
     [3, 120, 1, 1, 0, 0, 0, 0, 65, 0, 81, 0, 0, 0, 0, 0, 0, 0, 0, 0, 0, 0, 0, 0, 0, 0, 0, 0, 0, 3, 0, 0,
      78, 97, 109, 101, 0, 0, 0, 0, 0, 0, 0, 67, 0, 0, 0, 0, 80, 0, 0, 0, 0, 0, 0, 0, 0, 0, 0, 0, 0, 0, 0, 0,
      0x0D, 0x1A]"
  by (simp add: names_file_def sample_header_def descriptor_block_def encode_ascii_def list_eval)

lemma truncated_file_bytes:
  "truncated_file =
     [3, 120, 1, 1, 1, 0, 0, 0, 33, 0, 10, 0, 0, 0, 0, 0, 0, 0, 0, 0, 0, 0, 0, 0, 0, 0, 0, 0, 0, 3, 0, 0,
      0x0D]"
  by (simp add: truncated_file_def sample_header_def list_eval)

lemmas read_eval = read_dbf_def parse_header_def unpack_I_def unpack_H_def slice_def
  read_fields_end read_fields_step read_fields_error parse_field_def strip_nul_def ascii_def
  read_records_numeral

lemma read_names_file:
  "read_dbf names_file =
     Inr \<lparr>header = \<lparr>version = 3, year = 120, month = 1, day = 1, num_records = 0,
                      header_length = 65, record_length = 81\<rparr>,
          records = [],
          field_descriptors = [\<lparr>fname = ascii ''Name'', ftype = 67, flength = 80, fdecimal = 0\<rparr>]\<rparr>"
  by (simp add: names_file_bytes read_eval)

lemma read_truncated_file:
  "read_dbf truncated_file =
     Inr \<lparr>header = \<lparr>version = 3, year = 120, month = 1, day = 1, num_records = 1,
                      header_length = 33, record_length = 10\<rparr>,
          records = [[]],
          field_descriptors = []\<rparr>"
  by (simp add: truncated_file_bytes read_eval)

section \<open>Field formatting\<close>

lemma dec_digits_ascii: "c \<in> set (dec_digits n) \<Longrightarrow> c < 128"
proof (induction n rule: dec_digits.induct)
  case (1 n)
  show ?case
  proof (cases "n < 10")
    case True
    with 1(2) show ?thesis by (simp add: dec_digits_small)
  next
    case False
    have "n mod 10 < 10" by simp
    then have "48 + n mod 10 < 128" by linarith
    with False 1 show ?thesis by (auto simp: dec_digits_large)
  qed
qed

lemma fixed_digits_ascii: "c \<in> set (fixed_digits p m e) \<Longrightarrow> c < 128"
  by (auto simp: fixed_digits_def Let_def dest: dec_digits_ascii split: if_splits)

lemma format_f_ascii: "c \<in> set (format_f w p x) \<Longrightarrow> c < 128"
  by (cases x) (auto simp: format_f_def rjust_def ascii_def dest: fixed_digits_ascii split: if_splits)

lemma format_d_ascii: "c \<in> set (format_d w i) \<Longrightarrow> c < 128"
  by (auto simp: format_d_def rjust_def str_of_int_def dest: dec_digits_ascii split: if_splits)

lemma formatted_text_ascii:
  "formatted_text rt v w p = Inr t \<Longrightarrow> list_all (\<lambda>c. c < 128) t"
  by (auto simp: formatted_text_def list_all_iff dest: format_f_ascii format_d_ascii
      split: sum.splits if_splits)

lemma numeric_try_length: "numeric_try rt v w p = Inr b \<Longrightarrow> length b = w"
  by (auto simp: numeric_try_def rjust_bytes_def split: sum.splits)

lemma numeric_try_unconvertible: "to_float rt v = Inl e \<Longrightarrow> \<exists>e'. numeric_try rt v w p = Inl e'"
  by (simp add: numeric_try_def formatted_text_def)

lemma dec_digits_nonempty: "0 < length (dec_digits n)"
  by (cases "n < 10") (simp_all add: dec_digits_small dec_digits_large)

lemma length_dec_digits_power: "10 ^ k \<le> n \<Longrightarrow> k < length (dec_digits n)"
proof (induction k arbitrary: n)
  case 0
  show ?case by (rule dec_digits_nonempty)
next
  case (Suc k)
  from Suc.prems have p: "10 * 10 ^ k \<le> n" by simp
  have q: "(10::nat) \<le> 10 * 10 ^ k" by simp
  from p q have large: "\<not> n < 10" by linarith
  from Suc.prems have "10 ^ k \<le> n div 10" by simp
  from Suc.IH [OF this] large show ?case by (simp add: dec_digits_large)
qed

lemma digits_huge: "4300 < length (dec_digits huge)"
  by (rule length_dec_digits_power) (simp only: huge_def order_refl)

lemma int_to_str_huge: "int_to_str rt0 (int huge) = Inl ValueError"
  using digits_huge by (simp add: int_to_str_def rt0_def)

text \<open>
  C10 as stated fails: in a Character field \<open>str(value)\<close> is evaluated outside any
  \<open>try\<close>, and for an integer of 4301 digits it raises \<open>ValueError\<close> under the default
  limit of 4300 digits.
\<close>

theorem format_value_raises_counterexample:
  "format_value rt0 (PInt (int huge)) 67 10 0 = Inl ValueError"
  by (simp add: format_value_def py_str_def int_to_str_huge)

text \<open>
  C10, amended: \<open>format_value\<close> raises only for a Character field whose value is an
  integer with more decimal digits than the interpreter's limit on converting integers
  to strings, and then the error is \<open>ValueError\<close>. For every other value, type tag, length
  and decimal count it returns a byte string, which has the length of the field unless
  the type is Logical; and for a Numeric field a value that is \<open>None\<close>, the empty string or
  not convertible to a float gives exactly \<open>field_length\<close> spaces.
\<close>

theorem format_value_returns:
  "(ty = 67 \<and> v = PInt i \<and> 0 < int_max_str_digits rt
      \<and> int_max_str_digits rt < length (dec_digits (nat \<bar>i\<bar>))
      \<longrightarrow> format_value rt v ty w p = Inl ValueError)
   \<and> (\<not> (ty = 67 \<and> (\<exists>j. v = PInt j \<and> 0 < int_max_str_digits rt
                \<and> int_max_str_digits rt < length (dec_digits (nat \<bar>j\<bar>))))
      \<longrightarrow> (\<exists>bs. format_value rt v ty w p = Inr bs
             \<and> (ty \<noteq> 76 \<longrightarrow> length bs = w)
             \<and> (ty = 78 \<and> (v = PNone \<or> v = PStr [] \<or> (\<exists>e. to_float rt v = Inl e))
                  \<longrightarrow> bs = replicate w 0x20)))"
proof (intro conjI impI)
  assume "ty = 67 \<and> v = PInt i \<and> 0 < int_max_str_digits rt
      \<and> int_max_str_digits rt < length (dec_digits (nat \<bar>i\<bar>))"
  then show "format_value rt v ty w p = Inl ValueError"
    by (simp add: format_value_def py_str_def int_to_str_def)
next
  assume ok: "\<not> (ty = 67 \<and> (\<exists>j. v = PInt j \<and> 0 < int_max_str_digits rt
                \<and> int_max_str_digits rt < length (dec_digits (nat \<bar>j\<bar>))))"
  show "\<exists>bs. format_value rt v ty w p = Inr bs
             \<and> (ty \<noteq> 76 \<longrightarrow> length bs = w)
             \<and> (ty = 78 \<and> (v = PNone \<or> v = PStr [] \<or> (\<exists>e. to_float rt v = Inl e))
                  \<longrightarrow> bs = replicate w 0x20)"
  proof (cases "ty = 78")
    case True
    show ?thesis
    proof (cases "numeric_try rt v w p")
      case (Inl e)
      with True show ?thesis by (simp add: format_value_def spaces_def)
    next
      case (Inr b)
      with True numeric_try_length [OF Inr] show ?thesis
        by (auto simp: format_value_def spaces_def
            dest: numeric_try_unconvertible [where w = w and p = p])
    qed
  next
    case False
    show ?thesis
    proof (cases "ty = 67")
      case True
      with ok obtain s where "py_str rt (if v = PNone then PStr [] else v) = Inr s"
        by (cases v) (auto simp: py_str_def int_to_str_def)
      with True show ?thesis by (simp add: format_value_def ljust_bytes_def)
    next
      case c: False
      with False show ?thesis by (simp add: format_value_def spaces_def)
    qed
  qed
qed

theorem format_value_returns_witness:
  "format_value rt0 (PInt (int huge)) 67 3 0 = Inl ValueError
   \<and> format_value rt0 (PStr (ascii ''abc'')) 78 5 2 = Inr (encode_ascii ''     '')
   \<and> format_value rt0 PNone 78 3 0 = Inr (encode_ascii ''   '')
   \<and> format_value rt0 (PInt 42) 67 3 0 = Inr (encode_ascii ''42 '')"
proof -
  have u: "to_float rt0 (PStr (ascii ''abc'')) = Inl ValueError"
    by (simp add: to_float_def rt0_def)
  have lim: "0 < int_max_str_digits rt0" "int_max_str_digits rt0 = 4300"
    by (simp_all add: rt0_def)
  from format_value_returns [of 67 "PInt (int huge)" "int huge" rt0 3 0] digits_huge lim
  have h: "format_value rt0 (PInt (int huge)) 67 3 0 = Inl ValueError"
    by simp
  from format_value_returns [of 78 "PStr (ascii ''abc'')" _ rt0 5 2] u
  have a: "format_value rt0 (PStr (ascii ''abc'')) 78 5 2 = Inr (encode_ascii ''     '')"
    by (auto simp: encode_ascii_def replicate_numeral)
  from format_value_returns [of 78 PNone _ rt0 3 0]
  have b: "format_value rt0 PNone 78 3 0 = Inr (encode_ascii ''   '')"
    by (auto simp: encode_ascii_def replicate_numeral)
  have d42: "dec_digits 42 = [52, 50]"
    by (simp add: dec_digits_small dec_digits_large)
  have c: "format_value rt0 (PInt 42) 67 3 0 = Inr (encode_ascii ''42 '')"
    by (simp add: format_value_def py_str_def int_to_str_def str_of_int_def d42 rt0_def
        encode_ignore_def ljust_bytes_def encode_ascii_def)
  from h a b c show ?thesis by simp
qed

section \<open>Numeric overflow\<close>

text \<open>
  C7 as stated fails: the text of \<open>123456.0\<close> with one decimal is 8 characters wide; in a
  field of length 4 the formatter returns \<open>1234\<close>, the high-order characters, and not the
  low-order characters \<open>56.0\<close>.
\<close>

theorem truncation_keeps_low_order_counterexample:
  "formatted_text rt0 (PFloat (Fin False 123456 0)) 4 1 = Inr (ascii ''123456.0'')
   \<and> format_value rt0 (PFloat (Fin False 123456 0)) 78 4 1 = Inr (encode_ascii ''1234'')
   \<and> format_value rt0 (PFloat (Fin False 123456 0)) 78 4 1 \<noteq> Inr (encode_ascii ''56.0'')"
  by (simp add: format_value_def numeric_try_def formatted_text_def to_float_def format_eval)

text \<open>
  C7, amended: when the text formatted for a Numeric field is wider than the field,
  \<open>format_value\<close> returns without error the first \<open>field_length\<close> characters of that text:
  the truncation drops the characters on the right.
\<close>

theorem truncation_keeps_high_order:
  assumes "v \<noteq> PStr []" "formatted_text rt v w p = Inr t" "w < length t"
  shows "format_value rt v 78 w p = Inr (map of_nat (take w t))"
  using assms formatted_text_ascii [OF assms(2)]
  by (auto simp: formatted_text_def to_float_def format_value_def numeric_try_def encode_strict_def rjust_bytes_def take_map)

theorem truncation_keeps_high_order_witness:
  "format_value rt0 (PFloat (Fin False 123456 0)) 78 4 1 = Inr (map of_nat (take 4 (ascii ''123456.0'')))"
proof -
  have t: "formatted_text rt0 (PFloat (Fin False 123456 0)) 4 1 = Inr (ascii ''123456.0'')"
    by (simp add: formatted_text_def to_float_def format_eval)
  have l: "4 < length (ascii ''123456.0'')" by (simp add: ascii_def)
  show ?thesis
    using truncation_keeps_high_order [OF _ t l] by simp
qed

section \<open>Loading a truncated file\<close>

lemma length_read_records: "length (read_records n rl d) = n"
  by (induction n arbitrary: d) auto

lemma nth_read_records:
  "i < n \<Longrightarrow> read_records n rl d ! i = take rl (drop (i * rl) d)"
proof (induction n arbitrary: d i)
  case 0
  then show ?case by simp
next
  case (Suc n)
  show ?case
  proof (cases i)
    case 0
    then show ?thesis by simp
  next
    case (Suc j)
    with Suc.prems have "j < n" by simp
    from Suc.IH [OF this, of "drop rl d"] Suc show ?thesis
      by (simp add: add.commute)
  qed
qed

text \<open>
  C8 as stated fails: a file whose header declares one record of 10 bytes and which ends
  after the terminator holds fewer than \<open>header_length + record_count * record_length\<close>
  bytes, yet \<open>read_dbf\<close> returns a table, and the empty record is in it.
\<close>

theorem load_truncated_counterexample:
  "length truncated_file < 33 + 1 * 10
   \<and> map_sum id records (read_dbf truncated_file) = Inr [[]]"
  by (simp add: read_truncated_file) (simp add: truncated_file_bytes)

text \<open>
  C8, amended: no error is raised for missing record bytes. Whenever the header and the
  descriptor array can be read, \<open>read_dbf\<close> succeeds with exactly \<open>record_count\<close> records;
  record \<open>i\<close> is what the file holds, at most \<open>record_length\<close> bytes, at offset
  \<open>i * record_length\<close> of the bytes left after the descriptor array has been read: short or
  empty where the file ends.
\<close>

theorem load_short_records:
  assumes "parse_header (take 32 d) = Inr h" and "read_fields (drop 32 d) = Inr (fds, rest)"
  shows "\<exists>db. read_dbf d = Inr db \<and> length (records db) = num_records h
             \<and> (\<forall>i < num_records h.
                   records db ! i = take (record_length h) (drop (i * record_length h) rest))"
  using assms by (simp add: read_dbf_def length_read_records nth_read_records)

theorem load_short_records_witness:
  "map_sum id (\<lambda>db. (length (records db), records db ! 0)) (read_dbf truncated_file) = Inr (1, [])"
proof -
  have h: "parse_header (take 32 truncated_file) =
      Inr \<lparr>version = 3, year = 120, month = 1, day = 1, num_records = 1,
            header_length = 33, record_length = 10\<rparr>"
    by (simp add: truncated_file_bytes read_eval)
  have f: "read_fields (drop 32 truncated_file) = Inr ([], [])"
    by (simp add: truncated_file_bytes read_eval)
  from load_short_records [OF h f] show ?thesis by auto
qed

section \<open>The header written by \<open>write_dbf\<close>\<close>

lemma length_le_bytes: "length (le_bytes k n) = k"
  by (induction k arbitrary: n) auto

lemma uint_byte_of_int: "byte_of_int i = Inr y \<Longrightarrow> uint y = i"
proof -
  assume "byte_of_int i = Inr y"
  then have "0 \<le> i" "i < 2 ^ 8" "y = word_of_int i"
    by (auto simp: byte_of_int_def split: if_splits)
  then show ?thesis
    by (simp add: uint_word_of_int_eq take_bit_int_eq_self)
qed

lemma encode_header_Inr:
  assumes "encode_header h now = Inr hb"
  shows "\<exists>y m d. byte_of_int (today_year now - 1900) = Inr y
           \<and> byte_of_int (today_month now) = Inr m \<and> byte_of_int (today_day now) = Inr d
           \<and> num_records h < 2 ^ 32 \<and> header_length h < 2 ^ 16 \<and> record_length h < 2 ^ 16
           \<and> hb = [version h, y, m, d] @ le_bytes 4 (num_records h)
                   @ le_bytes 2 (header_length h) @ le_bytes 2 (record_length h)
                   @ replicate 20 0"
  using assms
  by (auto simp: encode_header_def pack_I_def pack_H_def slice_assign_def list_eval Let_def
      split: sum.splits if_splits)

lemma encode_header_sample:
  "today_year now = 2024 \<Longrightarrow> today_month now = 1 \<Longrightarrow> today_day now = dd \<Longrightarrow>
   0 \<le> dd \<Longrightarrow> dd < 256 \<Longrightarrow>
   encode_header \<lparr>version = 3, year = y0, month = m0, day = d0, num_records = n,
                  header_length = 65, record_length = 81\<rparr> now =
   (if n < 2 ^ 32 then Inr ([3, 124, 1, of_int dd] @ le_bytes 4 n @ [65, 0, 81, 0] @ replicate 20 0)
    else Inl StructError)"
  apply (simp add: encode_header_def byte_of_int_def pack_I_def pack_H_def)
  apply (simp add: list_eval slice_assign_def)
  done

text \<open>
  C9 as stated fails: for the year 2156 the header is not written with a wrapped year
  byte; storing 256 into the \<open>bytearray\<close> raises \<open>ValueError\<close>.
\<close>

theorem year_wraps_counterexample:
  "encode_header \<lparr>version = 3, year = 120, month = 1, day = 1, num_records = 4,
                  header_length = 65, record_length = 81\<rparr> now2156 = Inl ValueError"
  by (simp add: encode_header_def byte_of_int_def now2156_def)

text \<open>
  C9, amended: the header is built only for the calendar years 1900 to 2155, and then
  byte 1 is \<open>calendar_year - 1900\<close>; for every year from 2156 on, building the header
  raises \<open>ValueError\<close>: nothing wraps modulo 256.
\<close>

theorem header_year_byte:
  "(encode_header h now = Inr hb \<longrightarrow>
      1900 \<le> today_year now \<and> today_year now \<le> 2155
      \<and> uint (hb ! 1) = today_year now - 1900)
   \<and> (2156 \<le> today_year now \<longrightarrow> encode_header h now = Inl ValueError)"
proof (intro conjI impI)
  assume a: "encode_header h now = Inr hb"
  from encode_header_Inr [OF a] obtain y where
    y: "byte_of_int (today_year now - 1900) = Inr y" and hb: "hb ! 1 = y"
    by auto
  from y show "1900 \<le> today_year now" "today_year now \<le> 2155"
    by (auto simp: byte_of_int_def split: if_splits)
  from uint_byte_of_int [OF y] hb show "uint (hb ! 1) = today_year now - 1900"
    by simp
next
  assume "2156 \<le> today_year now"
  then show "encode_header h now = Inl ValueError"
    by (simp add: encode_header_def byte_of_int_def)
qed

theorem header_year_byte_witness:
  "uint (([3, 124, 1, 1] @ le_bytes 4 4 @ [65, 0, 81, 0] @ replicate 20 (0 :: byte)) ! 1) = 2024 - 1900
   \<and> encode_header \<lparr>version = 3, year = 120, month = 1, day = 1, num_records = 4,
                  header_length = 65, record_length = 81\<rparr> now2156 = Inl ValueError"
proof -
  let ?h = "\<lparr>version = 3, year = 120, month = 1, day = 1, num_records = 4,
                  header_length = 65, record_length = 81\<rparr>"
  have e: "encode_header ?h now0 =
      Inr ([3, 124, 1, 1] @ le_bytes 4 4 @ [65, 0, 81, 0] @ replicate 20 0)"
    by (simp add: encode_header_sample [where dd = 1] now0_def)
  have y: "2156 \<le> today_year now2156" by (simp add: now2156_def)
  from header_year_byte [of ?h now0 "[3, 124, 1, 1] @ le_bytes 4 4 @ [65, 0, 81, 0] @ replicate 20 0"]
    header_year_byte [of ?h now2156] e y
  show ?thesis by (simp add: now0_def)
qed

section \<open>Record length\<close>

lemma length_slice_assign:
  "a \<le> b \<Longrightarrow> b \<le> length buf \<Longrightarrow>
   length (slice_assign a b buf data) = length buf - (b - a) + length data"
  by (simp add: slice_assign_def Let_def min_def max_def) arith

lemma length_format_string_field: "length (format_string_field v n) = n"
  by (simp add: format_string_field_def encode_replace_def)

lemma length_format_numeric_field:
  "format_numeric_field rt v = Inr b \<Longrightarrow> 18 \<le> length b"
  by (auto simp: format_numeric_field_def encode_strict_def format_f_def rjust_def
      split: sum.splits if_splits)

lemma put_numerics_length:
  assumes "put_numerics rt vs off r = Inr (r', off')" and "off + 18 * length vs \<le> length r"
  shows "off' = off + 18 * length vs \<and>
         length r' + 18 * length vs =
           length r + sum_list (map (\<lambda>v. case format_numeric_field rt v of
                                            Inl e \<Rightarrow> 18 | Inr b \<Rightarrow> length b) vs)"
  using assms
proof (induction vs arbitrary: off r)
  case Nil
  then show ?case by simp
next
  case (Cons v vs)
  from Cons.prems(1) obtain b where b: "format_numeric_field rt v = Inr b"
    and rec: "put_numerics rt vs (off + 18) (slice_assign off (off + 18) r b) = Inr (r', off')"
    by (auto split: sum.splits)
  from length_format_numeric_field [OF b] have lb: "18 \<le> length b" .
  from Cons.prems(2) have le: "off + 18 \<le> length r" by simp
  have len: "length (slice_assign off (off + 18) r b) + 18 = length r + length b"
    using length_slice_assign [of off "off + 18" r b] le by simp
  have "(off + 18) + 18 * length vs \<le> length (slice_assign off (off + 18) r b)"
    using Cons.prems(2) lb len by simp
  from Cons.IH [OF rec this] len b show ?case by simp
qed

lemma put_numerics_ok:
  "list_all (\<lambda>v. \<exists>b. format_numeric_field rt v = Inr b) vs \<Longrightarrow>
   \<exists>r' off'. put_numerics rt vs off r = Inr (r', off')"
  by (induction vs arbitrary: off r) auto

lemma format_numeric_field_billion:
  "format_numeric_field rt0 (PFloat (Fin False 1000000000 0)) =
     Inr (encode_ascii ''1000000000.00000000'')"
  by (simp add: format_numeric_field_def to_float_def format_eval)

lemma format_numeric_field_zero:
  "format_numeric_field rt0 (PFloat (Fin False 0 0)) = Inr (encode_ascii ''        0.00000000'')"
  by (simp add: format_numeric_field_def to_float_def format_eval)

lemma bit_length_0: "bit_length 0 = 0"
  by (subst bit_length.simps) simp

lemma format_numeric_field_int_zero:
  "format_numeric_field rt0 (PInt 0) = Inr (encode_ascii ''        0.00000000'')"
  by (simp add: format_numeric_field_def to_float_def int_to_float_def bit_length_0 format_eval)

text \<open>
  In \<open>add_record\<close> a Logical value is one byte whatever the length of the field: with a
  Logical field of length 2 the record of a table with \<open>record_length = 3\<close> has 2 bytes.
\<close>

lemma add_record_logical_short:
  "map_sum id (map length \<circ> records)
     (add_record rt0
        \<lparr>header = \<lparr>version = 3, year = 120, month = 1, day = 1, num_records = 0,
                     header_length = 65, record_length = 3\<rparr>,
         records = [],
         field_descriptors = [\<lparr>fname = ascii ''Flag'', ftype = 76, flength = 2, fdecimal = 0\<rparr>]\<rparr>
        Map.empty)
   = Inr [2]"
  by (simp add: add_record_def format_value_def truthy_def slice_assign_def replicate_numeral)

text \<open>
  C6 at a failing input: the CSV row with \<open>Purity = 1000000000\<close> and all other numbers
  zero. The purity is formatted as 19 bytes into an 18-byte slice, and
  \<open>create_fertilizer_record\<close> returns a record of 682 bytes, not 681.
\<close>

theorem create_fertilizer_record_682:
  "map_sum id length
     (create_fertilizer_record rt0 (ascii ''X'') [] [] (PFloat (Fin False 1000000000 0))
        zero_nutrients (PInt 0) (PFloat (Fin False 0 0)) (PFloat (Fin False 0 0)) [])
   = Inr 682"
proof -
  let ?vs = "PFloat (Fin False 1000000000 0)
             # map (\<lambda>k. case zero_nutrients k of None \<Rightarrow> PInt 0 | Some v \<Rightarrow> v) nutrient_keys
             @ [PInt 0, PFloat (Fin False 0 0), PFloat (Fin False 0 0)]"
  define r3 where
    "r3 = slice_assign 161 241
            (slice_assign 81 161
               (slice_assign 1 81 ((replicate 681 0)[0 := 0x20])
                  (format_string_field (ascii ''X'') 80))
               (format_string_field [] 80))
            (format_string_field [] 80)"
  have l3: "length r3 = 681"
    by (simp add: r3_def length_slice_assign length_format_string_field)
  have ok: "list_all (\<lambda>v. \<exists>b. format_numeric_field rt0 v = Inr b) ?vs"
    by (simp add: list_all_iff zero_nutrients_def nutrient_keys_def ascii_def
        format_numeric_field_billion format_numeric_field_zero format_numeric_field_int_zero)
  from put_numerics_ok [OF ok] obtain r4 off' where
    p: "put_numerics rt0 ?vs 241 r3 = Inr (r4, off')" by blast
  have "241 + 18 * length ?vs \<le> length r3" by (simp add: l3 nutrient_keys_def)
  from put_numerics_length [OF p this]
  have off: "off' = 601" and l4: "length r4 = 682"
    by (simp_all add: l3 zero_nutrients_def nutrient_keys_def ascii_def encode_ascii_def
        format_numeric_field_billion format_numeric_field_zero format_numeric_field_int_zero)
  have "create_fertilizer_record rt0 (ascii ''X'') [] [] (PFloat (Fin False 1000000000 0))
          zero_nutrients (PInt 0) (PFloat (Fin False 0 0)) (PFloat (Fin False 0 0)) []
        = Inr (slice_assign 601 681 r4 (format_string_field [] 80))"
    using p [unfolded r3_def]
    by (simp add: create_fertilizer_record_def Let_def off del: One_nat_def)
  then show ?thesis
    by (simp add: length_slice_assign length_format_string_field l4)
qed

section \<open>The batch and the commit\<close>

lemma add_record_Inr:
  assumes "add_record rt db fv = Inr db'"
  shows "header_length (header db') = header_length (header db)"
    and "record_length (header db') = record_length (header db)"
    and "num_records (header db') = num_records (header db) + 1"
    and "length (records db') = length (records db) + 1"
  using assms by (auto simp: add_record_def split: if_splits sum.splits)

lemma add_loop_Inr:
  assumes "add_loop rt db ferts k = Inr (db', k')"
  shows "header_length (header db') = header_length (header db)
       \<and> record_length (header db') = record_length (header db)
       \<and> k \<le> k'
       \<and> num_records (header db') + k = num_records (header db) + k'
       \<and> length (records db') + k = length (records db) + k'"
  using assms
proof (induction ferts arbitrary: db k)
  case Nil
  then show ?case by simp
next
  case (Cons fert ferts)
  from Cons.prems obtain nm ex where nm: "fert (ascii ''Name'') = Some nm"
    and ex: "record_exists_val rt (records db) nm = Inr ex"
    by (auto split: option.splits sum.splits)
  show ?case
  proof (cases ex)
    case True
    with Cons.prems nm ex have "add_loop rt db ferts k = Inr (db', k')" by simp
    from Cons.IH [OF this] show ?thesis .
  next
    case False
    with Cons.prems nm ex obtain db1 where a: "add_record rt db fert = Inr db1"
      and l: "add_loop rt db1 ferts (k + 1) = Inr (db', k')"
      by (auto split: sum.splits)
    from Cons.IH [OF l] add_record_Inr [OF a] show ?thesis by simp
  qed
qed

lemma add_loop_all_present:
  assumes "\<forall>f \<in> set ferts. \<exists>nm. f (ascii ''Name'') = Some (PStr nm)
                                   \<and> record_exists rt (records db) nm"
  shows "add_loop rt db ferts k = Inr (db, k)"
  using assms by (induction ferts) (auto simp: record_exists_val_def)

lemma backup_path_neq: "backup_path p now \<noteq> p"
  by (simp add: backup_path_def)

lemma write_dbf_other_paths:
  "write_dbf dbf_path now db files = (files', e) \<Longrightarrow>
   p \<noteq> dbf_path \<Longrightarrow> p \<noteq> backup_path dbf_path now \<Longrightarrow> files' p = files p"
  by (auto simp: write_dbf_def Let_def split: option.splits sum.splits prod.splits)

lemma apply_batch_other_paths:
  "p \<noteq> db_path \<Longrightarrow> p \<noteq> backup_path db_path now \<Longrightarrow>
   fst (apply_batch rt now db_path ferts files) p = files p"
  by (auto simp: apply_batch_def dest: write_dbf_other_paths
      split: option.splits sum.splits prod.splits)

lemma write_dbf_ok:
  assumes "files dbf_path = Some d" and "encode_header (header db) now = Inr hb"
    and "copy_fields (drop 32 d) = (w, None)"
  shows "write_dbf dbf_path now db files =
           (((files(dbf_path := None))(backup_path dbf_path now \<mapsto> d))
              (dbf_path \<mapsto> hb @ w @ concat (records db) @ [0x1A]), None)"
  using assms backup_path_neq [of dbf_path now]
  by (simp add: write_dbf_def Let_def)

lemma write_dbf_None:
  assumes "files dbf_path = Some d" and "write_dbf dbf_path now db files = (files', None)"
  shows "\<exists>hb w. encode_header (header db) now = Inr hb \<and> copy_fields (drop 32 d) = (w, None)
              \<and> files' dbf_path = Some (hb @ w @ concat (records db) @ [0x1A])"
  using assms backup_path_neq [of dbf_path now]
  by (auto simp: write_dbf_def Let_def split: sum.splits prod.splits option.splits)

lemma apply_batch_commit:
  assumes "files db_path = Some d" and "read_dbf d = Inr db"
    and "add_loop rt db ferts 0 = Inr (db', k)" and "0 < k"
    and "encode_header (header db') now = Inr hb" and "copy_fields (drop 32 d) = (w, None)"
  shows "apply_batch rt now db_path ferts files =
           (((files(db_path := None))(backup_path db_path now \<mapsto> d))
              (db_path \<mapsto> hb @ w @ concat (records db') @ [0x1A]), Inr True)"
  using assms by (simp add: apply_batch_def write_dbf_ok)

lemma apply_batch_Inr:
  assumes "files db_path = Some d" and "apply_batch rt now db_path ferts files = (files', Inr r)"
  shows "\<exists>db db' k. read_dbf d = Inr db \<and> add_loop rt db ferts 0 = Inr (db', k)
           \<and> (k = 0 \<longrightarrow> files' = files \<and> \<not> r)
           \<and> (0 < k \<longrightarrow> r \<and> (\<exists>hb w. encode_header (header db') now = Inr hb
                  \<and> files' db_path = Some (hb @ w @ concat (records db') @ [0x1A])))"
proof -
  from assms obtain db where db: "read_dbf d = Inr db"
    by (auto simp: apply_batch_def split: sum.splits)
  with assms obtain db' k where l: "add_loop rt db ferts 0 = Inr (db', k)"
    by (auto simp: apply_batch_def split: sum.splits)
  show ?thesis
  proof (cases "k = 0")
    case True
    with assms db l show ?thesis by (auto simp: apply_batch_def)
  next
    case False
    with assms db l obtain fs' where w: "write_dbf db_path now db' files = (fs', None)"
      and eq: "files' = fs'" "r"
      by (auto simp: apply_batch_def split: prod.splits option.splits)
    from write_dbf_None [OF assms(1) w] eq db l False show ?thesis by auto
  qed
qed

section \<open>Header fields\<close>

lemma le_nat_le_bytes: "le_nat (le_bytes k n) = n mod 256 ^ k"
proof (induction k arbitrary: n)
  case 0
  then show ?case by simp
next
  case (Suc k)
  have "unat (of_nat (n mod 256) :: byte) = n mod 256"
    by (simp add: unat_of_nat)
  with Suc show ?case
    by (simp add: mod_mult2_eq)
qed

lemma slice_header_bytes:
  assumes "length a = 4" "length n = 4" "length hl = 2" "length rl = 2"
  shows "slice 4 8 (a @ n @ hl @ rl @ rest) = n"
    and "slice 8 10 (a @ n @ hl @ rl @ rest) = hl"
    and "slice 10 12 (a @ n @ hl @ rl @ rest) = rl"
  using assms by (simp_all add: slice_def)

lemma read_dbf_header_fields:
  assumes "read_dbf d = Inr db"
  shows "unpack_I (slice 4 8 d) = Inr (num_records (header db))"
    and "unpack_H (slice 8 10 d) = Inr (header_length (header db))"
    and "unpack_H (slice 10 12 d) = Inr (record_length (header db))"
  using assms
  by (auto simp: read_dbf_def parse_header_def slice_def drop_take
      split: sum.splits if_splits prod.splits)


section \<open>Two runs on the table with the field Name\<close>

lemmas batch_eval = fertilizers_def fertilizer_1_def fertilizer_2_def fertilizer_3_def
  fertilizer_4_def record_exists_val_def record_name_def decode_ascii_ignore_def py_strip_def
  is_space_def py_lower_def ascii_lower_def add_record_def format_value_def py_str_def
  encode_ignore_def ljust_bytes_def slice_assign_def Let_def name_record_def encode_ascii_def
  ascii_def replicate_numeral list_update_numeral rt0_def

lemma add_loop_names_file:
  "add_loop rt0
     \<lparr>header = \<lparr>version = 3, year = 120, month = 1, day = 1, num_records = 0,
                  header_length = 65, record_length = 81\<rparr>,
      records = [],
      field_descriptors = [\<lparr>fname = ascii ''Name'', ftype = 67, flength = 80, fdecimal = 0\<rparr>]\<rparr>
     fertilizers 0 =
   Inr (\<lparr>header = \<lparr>version = 3, year = 120, month = 1, day = 1, num_records = 4,
                     header_length = 65, record_length = 81\<rparr>,
         records = [name_record ''Jacks 5-12-26 Part A'', name_record ''Jacks 0-12-26 Part A'',
                    name_record ''Jacks Calcium Nitrate'', name_record ''Calcium Sulfate''],
         field_descriptors = [\<lparr>fname = ascii ''Name'', ftype = 67, flength = 80, fdecimal = 0\<rparr>]\<rparr>,
        4)"
  by (simp add: batch_eval)


lemma copy_fields_names_file:
  "copy_fields (drop 32 names_file) = (descriptor_block ''Name'' CHR ''C'' 80 0 @ [0x0D], None)"
  by (simp add: names_file_bytes descriptor_block_def encode_ascii_def replicate_numeral
      copy_fields_end copy_fields_step copy_fields_eof)

lemma first_run:
  "apply_batch rt0 now0 ''db'' fertilizers [''db'' \<mapsto> names_file] =
     (files_after, Inr True)"
proof -
  let ?db1 = "\<lparr>header = \<lparr>version = 3, year = 120, month = 1, day = 1, num_records = 4,
                     header_length = 65, record_length = 81\<rparr>,
         records = [name_record ''Jacks 5-12-26 Part A'', name_record ''Jacks 0-12-26 Part A'',
                    name_record ''Jacks Calcium Nitrate'', name_record ''Calcium Sulfate''],
         field_descriptors = [\<lparr>fname = ascii ''Name'', ftype = 67, flength = 80, fdecimal = 0\<rparr>]\<rparr>"
  have h: "encode_header (header ?db1) now0 =
      Inr ([3, 124, 1, 1] @ le_bytes 4 4 @ [65, 0, 81, 0] @ replicate 20 0)"
    by (simp add: encode_header_sample [where dd = 1] now0_def)
  have f: "[''db'' \<mapsto> names_file] ''db'' = Some names_file" by simp
  have k: "(0::nat) < 4" by simp
  from apply_batch_commit [where files = "[''db'' \<mapsto> names_file]" and db_path = "''db''"
      and now = now0 and db' = ?db1,
      OF f read_names_file add_loop_names_file k h copy_fields_names_file]
  show ?thesis by (simp add: files_after_def names_file_after_def le_bytes_numeral)
qed

lemma read_names_file_after:
  "read_dbf names_file_after =
     Inr \<lparr>header = \<lparr>version = 3, year = 124, month = 1, day = 1, num_records = 4,
                      header_length = 65, record_length = 81\<rparr>,
          records =
            [drop 31 (name_record ''Jacks 5-12-26 Part A'') @ take 31 (name_record ''Jacks 0-12-26 Part A''),
             drop 31 (name_record ''Jacks 0-12-26 Part A'') @ take 31 (name_record ''Jacks Calcium Nitrate''),
             drop 31 (name_record ''Jacks Calcium Nitrate'') @ take 31 (name_record ''Calcium Sulfate''),
             drop 31 (name_record ''Calcium Sulfate'') @ [0x1A]],
          field_descriptors = [\<lparr>fname = ascii ''Name'', ftype = 67, flength = 80, fdecimal = 0\<rparr>]\<rparr>"
  by (simp add: names_file_after_def descriptor_block_def name_record_def encode_ascii_def
      replicate_numeral read_eval)

lemma add_loop_names_file_after:
  "add_loop rt0
     \<lparr>header = \<lparr>version = 3, year = 124, month = 1, day = 1, num_records = 4,
                  header_length = 65, record_length = 81\<rparr>,
      records =
        [drop 31 (name_record ''Jacks 5-12-26 Part A'') @ take 31 (name_record ''Jacks 0-12-26 Part A''),
         drop 31 (name_record ''Jacks 0-12-26 Part A'') @ take 31 (name_record ''Jacks Calcium Nitrate''),
         drop 31 (name_record ''Jacks Calcium Nitrate'') @ take 31 (name_record ''Calcium Sulfate''),
         drop 31 (name_record ''Calcium Sulfate'') @ [0x1A]],
      field_descriptors = [\<lparr>fname = ascii ''Name'', ftype = 67, flength = 80, fdecimal = 0\<rparr>]\<rparr>
     fertilizers 0 =
   Inr (\<lparr>header = \<lparr>version = 3, year = 124, month = 1, day = 1, num_records = 5,
                     header_length = 65, record_length = 81\<rparr>,
         records =
           [drop 31 (name_record ''Jacks 5-12-26 Part A'') @ take 31 (name_record ''Jacks 0-12-26 Part A''),
            drop 31 (name_record ''Jacks 0-12-26 Part A'') @ take 31 (name_record ''Jacks Calcium Nitrate''),
            drop 31 (name_record ''Jacks Calcium Nitrate'') @ take 31 (name_record ''Calcium Sulfate''),
            drop 31 (name_record ''Calcium Sulfate'') @ [0x1A],
            name_record ''Jacks 5-12-26 Part A''],
         field_descriptors = [\<lparr>fname = ascii ''Name'', ftype = 67, flength = 80, fdecimal = 0\<rparr>]\<rparr>,
        1)"
  by (simp add: batch_eval)


lemma copy_fields_names_file_after:
  "copy_fields (drop 32 names_file_after) = (descriptor_block ''Name'' CHR ''C'' 80 0 @ [0x0D], None)"
  by (simp add: names_file_after_def descriptor_block_def encode_ascii_def replicate_numeral
      copy_fields_end copy_fields_step copy_fields_eof)

lemma second_run:
  "snd (apply_batch rt0 now1 ''db'' fertilizers files_after) = Inr True
   \<and> map_option (unpack_I \<circ> slice 4 8)
         (fst (apply_batch rt0 now1 ''db'' fertilizers files_after) ''db'') = Some (Inr 5)"
proof -
  let ?db3 = "\<lparr>header = \<lparr>version = 3, year = 124, month = 1, day = 1, num_records = 5,
                     header_length = 65, record_length = 81\<rparr>,
         records =
           [drop 31 (name_record ''Jacks 5-12-26 Part A'') @ take 31 (name_record ''Jacks 0-12-26 Part A''),
            drop 31 (name_record ''Jacks 0-12-26 Part A'') @ take 31 (name_record ''Jacks Calcium Nitrate''),
            drop 31 (name_record ''Jacks Calcium Nitrate'') @ take 31 (name_record ''Calcium Sulfate''),
            drop 31 (name_record ''Calcium Sulfate'') @ [0x1A],
            name_record ''Jacks 5-12-26 Part A''],
         field_descriptors = [\<lparr>fname = ascii ''Name'', ftype = 67, flength = 80, fdecimal = 0\<rparr>]\<rparr>"
  have h: "encode_header (header ?db3) now1 =
      Inr ([3, 124, 1, 2] @ le_bytes 4 5 @ [65, 0, 81, 0] @ replicate 20 0)"
    using encode_header_sample [where dd = 2 and now = now1 and n = 5]
    by (simp add: now1_def)
  have f: "files_after ''db'' = Some names_file_after" by (simp add: files_after_def)
  have k: "(0::nat) < 1" by simp
  note e = apply_batch_commit [where files = files_after and db_path = "''db''" and now = now1
      and db' = ?db3,
      OF f read_names_file_after add_loop_names_file_after k h copy_fields_names_file_after]
  show ?thesis unfolding e by (simp add: le_bytes_numeral slice_def unpack_I_def)
qed

section \<open>The CSV variant: header bytes\<close>

text \<open>
  The CSV variant edits a copy of the original file: after a run that adds records the
  reserved bytes 12..31 are those of the original file (for a file of at least 33 bytes),
  and from the year 2156 on the \<open>ValueError\<close> of the year byte is caught, nothing is
  written and the function returns \<open>False\<close>.
\<close>

lemma sum_list_at_least:
  "(\<And>x. x \<in> set xs \<Longrightarrow> c \<le> f x) \<Longrightarrow> c * length xs \<le> sum_list (map f xs)"
  by (induction xs) (auto intro: add_mono)

lemma numeric_width_at_least:
  "18 \<le> (case format_numeric_field rt v of Inl e \<Rightarrow> 18 | Inr b \<Rightarrow> length b)"
  by (auto split: sum.splits dest: length_format_numeric_field)

lemma create_fertilizer_record_length:
  assumes "create_fertilizer_record rt nm formula source purity nutrients isliquid density cost
             conctype = Inr r"
  shows "681 \<le> length r"
proof -
  define vs where
    "vs = purity # map (\<lambda>k. case nutrients k of None \<Rightarrow> PInt 0 | Some v \<Rightarrow> v) nutrient_keys
          @ [isliquid, density, cost]"
  define r3 where
    "r3 = slice_assign 161 241
            (slice_assign 81 161
               (slice_assign 1 81 ((replicate 681 0)[0 := 0x20])
                  (format_string_field nm 80))
               (format_string_field formula 80))
            (format_string_field source 80)"
  define total where
    "total = sum_list (map (\<lambda>v. case format_numeric_field rt v of
                                   Inl e \<Rightarrow> 18 | Inr b \<Rightarrow> length b) vs)"
  have l3: "length r3 = 681"
    by (simp add: r3_def length_slice_assign length_format_string_field)
  from assms obtain r4 off' where
    p: "put_numerics rt vs 241 r3 = Inr (r4, off')"
    and r: "r = slice_assign off' (off' + (681 - off')) r4 (format_string_field conctype (681 - off'))"
    by (auto simp: create_fertilizer_record_def Let_def r3_def vs_def split: sum.splits
        simp del: One_nat_def)
  have n: "length vs = 20" by (simp add: vs_def nutrient_keys_def)
  have "241 + 18 * length vs \<le> length r3" by (simp add: n l3)
  from put_numerics_length [OF p this]
  have off: "off' = 601" and l4: "length r4 + 360 = 681 + total"
    by (simp_all add: n l3 total_def)
  have "18 * length vs \<le> total"
    unfolding total_def by (rule sum_list_at_least) (rule numeric_width_at_least)
  with l4 n have "681 \<le> length r4" by simp
  then show ?thesis
    by (simp add: r off length_slice_assign length_format_string_field)
qed

lemma csv_add_loop_header:
  assumes "csv_add_loop rt files dbf_path ferts d num k = Inr (d1, num1, k1)"
    and "33 \<le> length d"
  shows "take 32 d1 = take 32 d \<and> 33 \<le> length d1"
  using assms
proof (induction ferts arbitrary: d num k)
  case Nil
  then show ?case by simp
next
  case (Cons fert ferts)
  from Cons.prems(1) obtain ex where
    ex: "fertilizer_exists rt files dbf_path (c_name fert) = Inr ex"
    by (auto split: sum.splits)
  show ?case
  proof (cases ex)
    case True
    with Cons.prems ex have "csv_add_loop rt files dbf_path ferts d num k = Inr (d1, num1, k1)"
      by simp
    from Cons.IH [OF this Cons.prems(2)] show ?thesis .
  next
    case False
    let ?d = "(if last d = 0x1A then butlast d else d)"
    from False Cons.prems ex obtain new_record where
      c: "create_fertilizer_record rt (c_name fert) (c_formula fert) (c_source fert)
            (PFloat (c_purity fert)) (map_option PFloat \<circ> c_nutrients fert)
            (PInt (c_isliquid fert)) (PFloat (c_density fert)) (PFloat (c_cost fert))
            (c_conctype fert) = Inr new_record"
      and l: "csv_add_loop rt files dbf_path ferts (?d @ new_record) (num + 1) (k + 1)
                = Inr (d1, num1, k1)"
      by (auto split: sum.splits if_splits)
    from create_fertilizer_record_length [OF c] have nr: "681 \<le> length new_record" .
    have t: "take 32 (?d @ new_record) = take 32 d"
      using Cons.prems(2) by (simp add: butlast_conv_take)
    have "33 \<le> length (?d @ new_record)"
      using Cons.prems(2) nr by simp
    from Cons.IH [OF l this] t show ?thesis by simp
  qed
qed

lemma csv_try_reserved_bytes:
  assumes "csv_try rt now dbf_path ferts files d = Inr (files', True)" and "33 \<le> length d"
  shows "\<exists>d'. files' dbf_path = Some d' \<and> slice 12 32 d' = slice 12 32 d"
proof -
  from assms(1) obtain num d1 num1 k1 nb y m dd where
    l: "csv_add_loop rt files dbf_path ferts d num 0 = Inr (d1, num1, k1)"
    and nb: "pack_I num1 = Inr nb"
    and f: "files' = ((files(dbf_path := None))(backup_path dbf_path now \<mapsto> d))
                       (dbf_path \<mapsto> (slice_assign 4 8 d1 nb)[1 := y, 2 := m, 3 := dd] @ [0x1A])"
    by (auto simp: csv_try_def split: sum.splits if_splits prod.splits)
  from csv_add_loop_header [OF l assms(2)] have
    t: "take 32 d1 = take 32 d" and len: "33 \<le> length d1" by simp_all
  from nb have lnb: "length nb = 4"
    by (auto simp: pack_I_def length_le_bytes split: if_splits)
  have "slice 12 32 ((slice_assign 4 8 d1 nb)[1 := y, 2 := m, 3 := dd] @ [0x1A]) = slice 12 32 d1"
    using len lnb by (simp add: slice_def slice_assign_def Let_def min_def max_def)
  also have "\<dots> = slice 12 32 (take 32 d1)"
    by (simp add: slice_def drop_take)
  also have "\<dots> = slice 12 32 d"
    by (simp add: t slice_def drop_take)
  finally show ?thesis by (simp add: f)
qed

lemma csv_reserved_bytes:
  assumes "files dbf_path = Some d" and "33 \<le> length d"
    and "csv_add_fertilizers_to_db rt now dbf_path ferts files = (files', True)"
  shows "\<exists>d'. files' dbf_path = Some d' \<and> slice 12 32 d' = slice 12 32 d"
proof -
  from assms(1,3) have "csv_try rt now dbf_path ferts files d = Inr (files', True)"
    by (auto simp: csv_add_fertilizers_to_db_def split: if_splits sum.splits)
  from csv_try_reserved_bytes [OF this assms(2)] show ?thesis .
qed

lemma csv_year_2156:
  assumes "2156 \<le> today_year now"
  shows "csv_add_fertilizers_to_db rt now dbf_path ferts files = (files, False)"
  using assms
  by (auto simp: csv_add_fertilizers_to_db_def csv_try_def byte_of_int_def
      split: option.splits sum.splits prod.splits)

section \<open>Idempotence\<close>

text \<open>
  C4 at a failing input: \<open>names_file\<close>, an empty table in the standard layout with the
  single field \<open>Name\<close>. The first run adds the four fertilizers and writes the file. The
  second run, on the files the first run left, reads the records 31 bytes late (the read
  that finds the terminator takes 32 bytes, the writer wrote one), does not find
  \<open>Jacks 5-12-26 Part A\<close>, adds it again and writes the file once more: the record count
  becomes 5.
\<close>

theorem second_run_adds_again:
  "snd (add_fertilizers_to_db rt0 now0 ''db'' [''db'' \<mapsto> names_file]) = Inr True
   \<and> snd (add_fertilizers_to_db rt0 now1 ''db''
            (fst (add_fertilizers_to_db rt0 now0 ''db'' [''db'' \<mapsto> names_file]))) = Inr True
   \<and> map_option (unpack_I \<circ> slice 4 8)
        (fst (add_fertilizers_to_db rt0 now1 ''db''
               (fst (add_fertilizers_to_db rt0 now0 ''db'' [''db'' \<mapsto> names_file]))) ''db'')
      = Some (Inr 5)"
  using second_run by (simp add: add_fertilizers_to_db_def first_run)

section \<open>Reserved header bytes\<close>

text \<open>Every commit of \<open>DBFWriter\<close> writes zeros into the reserved bytes 12..31.\<close>

lemma commit_reserved_zero:
  assumes "files db_path = Some d"
    and "apply_batch rt now db_path ferts files = (files', Inr True)"
  shows "\<exists>d'. files' db_path = Some d' \<and> slice 12 32 d' = replicate 20 0"
proof -
  from apply_batch_Inr [OF assms] obtain db db' k where
    "read_dbf d = Inr db" and "add_loop rt db ferts 0 = Inr (db', k)"
    and zero: "k = 0 \<longrightarrow> files' = files \<and> \<not> True"
    and pos: "0 < k \<longrightarrow> True \<and> (\<exists>hb w. encode_header (header db') now = Inr hb
                  \<and> files' db_path = Some (hb @ w @ concat (records db') @ [0x1A]))"
    by blast
  from zero have "0 < k" by auto
  with pos obtain hb w where
    hb: "encode_header (header db') now = Inr hb"
    and f: "files' db_path = Some (hb @ w @ concat (records db') @ [0x1A])"
    by auto
  from encode_header_Inr [OF hb] obtain y m dd where
    "hb = [version (header db'), y, m, dd] @ le_bytes 4 (num_records (header db'))
            @ le_bytes 2 (header_length (header db'))
            @ le_bytes 2 (record_length (header db')) @ replicate 20 0"
    by blast
  then have "slice 12 32 (hb @ w @ concat (records db') @ [0x1A]) = replicate 20 0"
    by (simp add: slice_def length_le_bytes)
  with f show ?thesis by simp
qed

text \<open>
  C1 at a failing input: the header of \<open>names_file\<close> has \<open>0x03\<close> in its reserved byte 29;
  after the run of \<open>add_fertilizers_to_db\<close> the reserved bytes 12..31 of the rewritten
  file are all zero.
\<close>

theorem reserved_bytes_zeroed:
  "slice 12 32 names_file = replicate 17 0 @ [3, 0, 0]
   \<and> map_option (slice 12 32)
        (fst (add_fertilizers_to_db rt0 now0 ''db'' [''db'' \<mapsto> names_file]) ''db'')
      = Some (replicate 20 0)"
proof
  show "slice 12 32 names_file = replicate 17 0 @ [3, 0, 0]"
    by (simp add: names_file_bytes slice_def replicate_numeral)
  show "map_option (slice 12 32)
        (fst (add_fertilizers_to_db rt0 now0 ''db'' [''db'' \<mapsto> names_file]) ''db'')
      = Some (replicate 20 0)"
    by (simp add: add_fertilizers_to_db_def first_run files_after_def names_file_after_def
        slice_def replicate_numeral)
qed

section \<open>Header fields after a commit\<close>

text \<open>
  C3: when the batch over a table file returns normally, having added \<open>k\<close> records
  (\<open>k = 0\<close> included, where nothing is written), the table file afterwards has the
  \<open>header_length\<close> and \<open>record_length\<close> fields of the original file, and its
  \<open>record_count\<close> field is the original count plus \<open>k\<close>.
\<close>

theorem commit_header_fields:
  assumes "files db_path = Some d"
    and "apply_batch rt now db_path ferts files = (files', Inr r)"
  shows "\<exists>db db' k d' n. read_dbf d = Inr db \<and> add_loop rt db ferts 0 = Inr (db', k)
           \<and> length (records db') = length (records db) + k
           \<and> files' db_path = Some d'
           \<and> unpack_I (slice 4 8 d) = Inr n \<and> unpack_I (slice 4 8 d') = Inr (n + k)
           \<and> unpack_H (slice 8 10 d') = unpack_H (slice 8 10 d)
           \<and> unpack_H (slice 10 12 d') = unpack_H (slice 10 12 d)"
proof -
  from apply_batch_Inr [OF assms] obtain db db' k where
    db: "read_dbf d = Inr db" and l: "add_loop rt db ferts 0 = Inr (db', k)"
    and zero: "k = 0 \<longrightarrow> files' = files \<and> \<not> r"
    and pos: "0 < k \<longrightarrow> r \<and> (\<exists>hb w. encode_header (header db') now = Inr hb
                  \<and> files' db_path = Some (hb @ w @ concat (records db') @ [0x1A]))"
    by blast
  note hf = read_dbf_header_fields [OF db]
  from add_loop_Inr [OF l] have
    hl: "header_length (header db') = header_length (header db)" and
    rl: "record_length (header db') = record_length (header db)" and
    n: "num_records (header db') = num_records (header db) + k" and
    len: "length (records db') = length (records db) + k"
    by simp_all
  show ?thesis
  proof (cases "k = 0")
    case True
    with zero assms(1) db l len hf show ?thesis by auto
  next
    case False
    with pos obtain hb w where hb: "encode_header (header db') now = Inr hb"
      and f: "files' db_path = Some (hb @ w @ concat (records db') @ [0x1A])"
      by auto
    from encode_header_Inr [OF hb] obtain y m dd where
      bounds: "num_records (header db') < 2 ^ 32" "header_length (header db') < 2 ^ 16"
        "record_length (header db') < 2 ^ 16"
      and shape: "hb = [version (header db'), y, m, dd] @ le_bytes 4 (num_records (header db'))
                   @ le_bytes 2 (header_length (header db'))
                   @ le_bytes 2 (record_length (header db')) @ replicate 20 0"
      by blast
    let ?d' = "hb @ w @ concat (records db') @ [0x1A]"
    have s: "slice 4 8 ?d' = le_bytes 4 (num_records (header db'))"
      "slice 8 10 ?d' = le_bytes 2 (header_length (header db'))"
      "slice 10 12 ?d' = le_bytes 2 (record_length (header db'))"
      using slice_header_bytes [of "[version (header db'), y, m, dd]"
          "le_bytes 4 (num_records (header db'))" "le_bytes 2 (header_length (header db'))"
          "le_bytes 2 (record_length (header db'))"
          "replicate 20 0 @ w @ concat (records db') @ [0x1A]"]
      by (simp_all add: shape length_le_bytes)
    have "unpack_I (slice 4 8 ?d') = Inr (num_records (header db) + k)"
      using bounds(1) n by (simp add: s unpack_I_def length_le_bytes le_nat_le_bytes)
    moreover have "unpack_H (slice 8 10 ?d') = Inr (header_length (header db))"
      using bounds(2) hl by (simp add: s unpack_H_def length_le_bytes le_nat_le_bytes)
    moreover have "unpack_H (slice 10 12 ?d') = Inr (record_length (header db))"
      using bounds(3) rl by (simp add: s unpack_H_def length_le_bytes le_nat_le_bytes)
    ultimately show ?thesis
      using db l len f hf by auto
  qed
qed

theorem commit_header_fields_witness:
  "map_option (\<lambda>d'. (unpack_I (slice 4 8 d'), unpack_H (slice 8 10 d'), unpack_H (slice 10 12 d')))
     (fst (apply_batch rt0 now0 ''db'' fertilizers [''db'' \<mapsto> names_file]) ''db'')
   = Some (Inr 4, Inr 65, Inr 81)"
proof -
  have f: "[''db'' \<mapsto> names_file] ''db'' = Some names_file" by simp
  from commit_header_fields [OF f first_run] obtain db db' k d' n where
    r: "read_dbf names_file = Inr db" and a: "add_loop rt0 db fertilizers 0 = Inr (db', k)"
    and d': "files_after ''db'' = Some d'"
    and u: "unpack_I (slice 4 8 names_file) = Inr n" "unpack_I (slice 4 8 d') = Inr (n + k)"
      "unpack_H (slice 8 10 d') = unpack_H (slice 8 10 names_file)"
      "unpack_H (slice 10 12 d') = unpack_H (slice 10 12 names_file)"
    by blast
  from r read_names_file have
    "db = \<lparr>header = \<lparr>version = 3, year = 120, month = 1, day = 1, num_records = 0,
                      header_length = 65, record_length = 81\<rparr>,
          records = [],
          field_descriptors = [\<lparr>fname = ascii ''Name'', ftype = 67, flength = 80, fdecimal = 0\<rparr>]\<rparr>"
    by simp
  with a add_loop_names_file have k: "k = 4" by simp
  from u(1) have n: "n = 0"
    by (simp add: names_file_bytes slice_def unpack_I_def)
  have hl: "unpack_H (slice 8 10 names_file) = Inr 65"
    and rl: "unpack_H (slice 10 12 names_file) = Inr 81"
    by (simp_all add: names_file_bytes slice_def unpack_H_def)
  have "fst (apply_batch rt0 now0 ''db'' fertilizers [''db'' \<mapsto> names_file]) ''db'' = Some d'"
    using d' by (simp add: first_run)
  with u k n hl rl show ?thesis by simp
qed

section \<open>A batch of names that are all in the table\<close>

text \<open>
  When \<open>record_exists\<close> finds the name of every candidate among the records that
  \<open>read_dbf\<close> returned, the batch returns \<open>False\<close> and leaves every file as it was; and no
  run touches a path other than the table and its one backup path
  (\<open>apply_batch_other_paths\<close>): \<open>write_dbf\<close> is called at most once.
\<close>

lemma no_write_when_all_found:
  assumes "files db_path = Some d" and "read_dbf d = Inr db"
    and "\<forall>f \<in> set ferts. \<exists>nm. f (ascii ''Name'') = Some (PStr nm)
                                   \<and> record_exists rt (records db) nm"
  shows "apply_batch rt now db_path ferts files = (files, Inr False)"
  using assms by (simp add: apply_batch_def add_loop_all_present)

lemma fertilizer_exists_loop_numeral:
  "fertilizer_exists_loop rt d hl rl nm (numeral k) i =
     (let record = slice (hl + i * rl) (hl + i * rl + rl) d
      in if record = [] then Inl IndexError
         else if record ! 0 = 0x2A then fertilizer_exists_loop rt d hl rl nm (pred_numeral k) (i + 1)
         else if py_lower rt (record_name record) = py_lower rt nm then Inr True
         else fertilizer_exists_loop rt d hl rl nm (pred_numeral k) (i + 1))"
  by (simp only: numeral_eq_Suc [of k] fertilizer_exists_loop.simps)

lemma names_file_after_bytes:
  "names_file_after =
     [3, 124, 1, 1, 4, 0, 0, 0, 65, 0, 81, 0] @ replicate 20 0
     @ [78, 97, 109, 101, 0, 0, 0, 0, 0, 0, 0, 67, 0, 0, 0, 0, 80, 0] @ replicate 14 0 @ [0x0D]
     @ (0x20 # encode_ascii ''Jacks 5-12-26 Part A'' @ replicate 60 0x20)
     @ (0x20 # encode_ascii ''Jacks 0-12-26 Part A'' @ replicate 60 0x20)
     @ (0x20 # encode_ascii ''Jacks Calcium Nitrate'' @ replicate 59 0x20)
     @ (0x20 # encode_ascii ''Calcium Sulfate'' @ replicate 65 0x20) @ [0x1A]"
  by (simp add: names_file_after_def descriptor_block_def name_record_def encode_ascii_def
      replicate_numeral)

lemmas exists_eval = fertilizer_exists_def fertilizer_exists_loop_numeral unpack_H_def
  unpack_I_def slice_def record_name_def decode_ascii_ignore_def py_strip_def is_space_def
  py_lower_def ascii_lower_def Let_def encode_ascii_def ascii_def replicate_numeral rt0_def

lemma names_present_in_names_file_after:
  "fertilizer_exists rt0 [''db'' \<mapsto> names_file_after] ''db'' (ascii ''Jacks 5-12-26 Part A'') = Inr True"
  "fertilizer_exists rt0 [''db'' \<mapsto> names_file_after] ''db'' (ascii ''Jacks 0-12-26 Part A'') = Inr True"
  "fertilizer_exists rt0 [''db'' \<mapsto> names_file_after] ''db'' (ascii ''Jacks Calcium Nitrate'') = Inr True"
  "fertilizer_exists rt0 [''db'' \<mapsto> names_file_after] ''db'' (ascii ''Calcium Sulfate'') = Inr True"
  by (simp_all add: names_file_after_bytes exists_eval)

lemma names_of_fertilizers:
  "map (\<lambda>f. f (ascii ''Name'')) fertilizers =
     [Some (PStr (ascii ''Jacks 5-12-26 Part A'')), Some (PStr (ascii ''Jacks 0-12-26 Part A'')),
      Some (PStr (ascii ''Jacks Calcium Nitrate'')), Some (PStr (ascii ''Calcium Sulfate''))]"
  by (simp add: fertilizers_def fertilizer_1_def fertilizer_2_def fertilizer_3_def
      fertilizer_4_def ascii_def)

lemma records_of_names_file_after:
  "slice 65 389 names_file_after =
     name_record ''Jacks 5-12-26 Part A'' @ name_record ''Jacks 0-12-26 Part A''
     @ name_record ''Jacks Calcium Nitrate'' @ name_record ''Calcium Sulfate''"
  by (simp add: names_file_after_def descriptor_block_def name_record_def encode_ascii_def
      slice_def replicate_numeral)

lemma run_on_names_file_after:
  "snd (apply_batch rt0 now1 ''db'' fertilizers [''db'' \<mapsto> names_file_after]) = Inr True
   \<and> map_option (unpack_I \<circ> slice 4 8)
         (fst (apply_batch rt0 now1 ''db'' fertilizers [''db'' \<mapsto> names_file_after]) ''db'')
       = Some (Inr 5)
   \<and> fst (apply_batch rt0 now1 ''db'' fertilizers [''db'' \<mapsto> names_file_after])
         (backup_path ''db'' now1) = Some names_file_after"
proof -
  let ?db3 = "\<lparr>header = \<lparr>version = 3, year = 124, month = 1, day = 1, num_records = 5,
                     header_length = 65, record_length = 81\<rparr>,
         records =
           [drop 31 (name_record ''Jacks 5-12-26 Part A'') @ take 31 (name_record ''Jacks 0-12-26 Part A''),
            drop 31 (name_record ''Jacks 0-12-26 Part A'') @ take 31 (name_record ''Jacks Calcium Nitrate''),
            drop 31 (name_record ''Jacks Calcium Nitrate'') @ take 31 (name_record ''Calcium Sulfate''),
            drop 31 (name_record ''Calcium Sulfate'') @ [0x1A],
            name_record ''Jacks 5-12-26 Part A''],
         field_descriptors = [\<lparr>fname = ascii ''Name'', ftype = 67, flength = 80, fdecimal = 0\<rparr>]\<rparr>"
  have h: "encode_header (header ?db3) now1 =
      Inr ([3, 124, 1, 2] @ le_bytes 4 5 @ [65, 0, 81, 0] @ replicate 20 0)"
    using encode_header_sample [where dd = 2 and now = now1 and n = 5]
    by (simp add: now1_def)
  have f: "[''db'' \<mapsto> names_file_after] ''db'' = Some names_file_after" by simp
  have k: "(0::nat) < 1" by simp
  have b: "backup_path ''db'' now1 \<noteq> ''db''" by (rule backup_path_neq)
  note e = apply_batch_commit [where files = "[''db'' \<mapsto> names_file_after]"
      and db_path = "''db''" and now = now1 and db' = ?db3,
      OF f read_names_file_after add_loop_names_file_after k h copy_fields_names_file_after]
  show ?thesis unfolding e using b by (simp add: le_bytes_numeral slice_def unpack_I_def)
qed

text \<open>
  C5 at a failing input: \<open>names_file_after\<close>, a table in the standard layout whose four
  active records, at \<open>header_length\<close> and 81 bytes apart, carry the names of the four
  candidates (the existence check of the CSV variant finds each of them). The run reads
  the records 31 bytes late, does not find \<open>Jacks 5-12-26 Part A\<close>, appends it, renames
  the table to a backup and writes a new file with record count 5.
\<close>

theorem all_present_still_writes:
  "map (\<lambda>f. f (ascii ''Name'')) fertilizers =
     [Some (PStr (ascii ''Jacks 5-12-26 Part A'')), Some (PStr (ascii ''Jacks 0-12-26 Part A'')),
      Some (PStr (ascii ''Jacks Calcium Nitrate'')), Some (PStr (ascii ''Calcium Sulfate''))]
   \<and> slice 65 389 names_file_after =
       name_record ''Jacks 5-12-26 Part A'' @ name_record ''Jacks 0-12-26 Part A''
       @ name_record ''Jacks Calcium Nitrate'' @ name_record ''Calcium Sulfate''
   \<and> fertilizer_exists rt0 [''db'' \<mapsto> names_file_after] ''db'' (ascii ''Jacks 5-12-26 Part A'') = Inr True
   \<and> fertilizer_exists rt0 [''db'' \<mapsto> names_file_after] ''db'' (ascii ''Jacks 0-12-26 Part A'') = Inr True
   \<and> fertilizer_exists rt0 [''db'' \<mapsto> names_file_after] ''db'' (ascii ''Jacks Calcium Nitrate'') = Inr True
   \<and> fertilizer_exists rt0 [''db'' \<mapsto> names_file_after] ''db'' (ascii ''Calcium Sulfate'') = Inr True
   \<and> snd (add_fertilizers_to_db rt0 now1 ''db'' [''db'' \<mapsto> names_file_after]) = Inr True
   \<and> map_option (unpack_I \<circ> slice 4 8)
         (fst (add_fertilizers_to_db rt0 now1 ''db'' [''db'' \<mapsto> names_file_after]) ''db'')
       = Some (Inr 5)
   \<and> fst (add_fertilizers_to_db rt0 now1 ''db'' [''db'' \<mapsto> names_file_after])
         (backup_path ''db'' now1) = Some names_file_after"
  using run_on_names_file_after
  by (simp only: names_of_fertilizers records_of_names_file_after
      names_present_in_names_file_after add_fertilizers_to_db_def simp_thms)

section \<open>Duplicate detection\<close>

text \<open>
  C2: \<open>record_exists\<close> returns true exactly when some record whose status byte is not
  \<open>0x2A\<close> has a name field (bytes 1..81, ASCII-decoded ignoring non-ASCII bytes,
  whitespace-trimmed) equal to the query under lower-casing; a tombstoned record never
  makes it true.
\<close>

theorem record_exists_iff:
  "record_exists rt recs name \<longleftrightarrow>
     (\<exists>r \<in> set recs. take 1 r \<noteq> [0x2A] \<and>
        py_lower rt (py_strip (decode_ascii_ignore (take 80 (drop 1 r)))) = py_lower rt name)"
  by (induction recs) (auto simp: record_name_def)

theorem record_exists_iff_witness:
  "record_exists rt0 [0x2A # encode_ascii ''calcium sulfate   ''] (ascii ''Calcium Sulfate'') = False
   \<and> record_exists rt0 [0x2A # encode_ascii ''x'', 0x20 # encode_ascii ''calcium sulfate   '']
        (ascii ''Calcium Sulfate'') = True"
  using record_exists_iff [of rt0 "[0x2A # encode_ascii ''calcium sulfate   '']" "ascii ''Calcium Sulfate''"]
    record_exists_iff [of rt0 "[0x2A # encode_ascii ''x'', 0x20 # encode_ascii ''calcium sulfate   '']"
      "ascii ''Calcium Sulfate''"]
  by (simp add: rt0_def ascii_def encode_ascii_def decode_ascii_ignore_def py_strip_def
      py_lower_def is_space_def ascii_lower_def)

end
